theory Spec2Isabelle
  imports
    Complex_Main
    "HOL-Library.AList"
    "HOL-Library.Char_ord"
    "HOL-Library.List_Lexorder"
    "HOL-Library.Product_Lexorder"
begin

chapter \<open>PitWall-Live: feature engineering and data processing\<close>

text \<open>
  A shallow embedding of \<^verbatim>\<open>src/models/src/features/engineer.py\<close> (class
  \<^verbatim>\<open>FeatureEngineer\<close>) and \<^verbatim>\<open>src/models/src/data/processor.py\<close> (class
  \<^verbatim>\<open>DataProcessor\<close>).

  Conventions of the embedding.
  \<^item> Floating-point numbers are idealised as \<^typ>\<open>real\<close>; a missing numeric cell (pandas
    NaN) is \<open>None\<close> in a \<^typ>\<open>real option\<close>. The cells of the tables given to the
    scaler also tell infinite numbers and values that are not numbers, which the scaler
    refuses.
  \<^item> A pandas table is a record of its column labels and its rows, in row order. The rows
    are typed records; a field is only read where the source reads the column, and an
    optional column is read only after the membership test the source makes.
  \<^item> An exception is a value \<open>Inl e\<close> of a sum type.
  \<^item> A Python \<^verbatim>\<open>dict\<close> is an association list in insertion order with distinct keys.
\<close>

section \<open>Values, errors and dictionaries\<close>

datatype pyval = Number real | NaN | Str string | Boolean bool

datatype error =
    KeyError string
  | IndexError
  | ValueError string
  | ScalerNotFound string

type_synonym features = "(string \<times> pyval) list"

text \<open>\<^verbatim>\<open>d[k] = v\<close> is \<^const>\<open>AList.update\<close>: an existing key keeps its place, a new
  key goes last. \<^verbatim>\<open>{**d, **e}\<close> and \<^verbatim>\<open>d.update(e)\<close> store the items of \<open>e\<close> in order.\<close>

definition dict_update :: "features \<Rightarrow> features \<Rightarrow> features" where
  "dict_update d e = foldl (\<lambda>acc kv. AList.update (fst kv) (snd kv) acc) d e"

definition dict_keys :: "features \<Rightarrow> string list" where
  "dict_keys d = map fst d"

text \<open>Sequencing of computations that may raise.\<close>

definition bind_err :: "error + 'a \<Rightarrow> ('a \<Rightarrow> error + 'b) \<Rightarrow> error + 'b" where
  "bind_err m f = (case m of Inl e \<Rightarrow> Inl e | Inr x \<Rightarrow> f x)"

text \<open>A \<^verbatim>\<open>for\<close> loop that appends one result per element and stops at the first
  exception.\<close>

fun for_each :: "('a \<Rightarrow> error + 'b) \<Rightarrow> 'a list \<Rightarrow> error + 'b list" where
  "for_each f [] = Inr []"
| "for_each f (x # xs) =
     (case f x of
        Inl e \<Rightarrow> Inl e
      | Inr y \<Rightarrow> (case for_each f xs of Inl e \<Rightarrow> Inl e | Inr ys \<Rightarrow> Inr (y # ys)))"

definition map_result :: "('a \<Rightarrow> 'b) \<Rightarrow> error + 'a \<Rightarrow> error + 'b" where
  "map_result f m = (case m of Inl e \<Rightarrow> Inl e | Inr x \<Rightarrow> Inr (f x))"

section \<open>Series operations of pandas\<close>

text \<open>Reductions skip missing cells (\<^verbatim>\<open>skipna=True\<close>): the mean and the minimum of no
  value are NaN, the sum of no value is 0.\<close>

fun dropna :: "real option list \<Rightarrow> real list" where
  "dropna [] = []"
| "dropna (None # xs) = dropna xs"
| "dropna (Some v # xs) = v # dropna xs"

definition of_cell :: "real option \<Rightarrow> pyval" where
  "of_cell c = (case c of None \<Rightarrow> NaN | Some v \<Rightarrow> Number v)"

definition mean_cell :: "real option list \<Rightarrow> real option" where
  "mean_cell xs =
     (let vs = dropna xs in if vs = [] then None else Some (sum_list vs / real (length vs)))"

definition series_mean :: "real option list \<Rightarrow> pyval" where
  "series_mean xs = of_cell (mean_cell xs)"

definition series_sum :: "real option list \<Rightarrow> real" where
  "series_sum xs = sum_list (dropna xs)"

definition series_min :: "real option list \<Rightarrow> pyval" where
  "series_min xs = (let vs = dropna xs in if vs = [] then NaN else Number (Min (set vs)))"

text \<open>Comparisons with a missing cell are false.\<close>

definition eq_cell :: "real option \<Rightarrow> real \<Rightarrow> bool" where
  "eq_cell c v = (case c of None \<Rightarrow> False | Some x \<Rightarrow> x = v)"

definition le_cell :: "real option \<Rightarrow> real \<Rightarrow> bool" where
  "le_cell c v = (case c of None \<Rightarrow> False | Some x \<Rightarrow> x \<le> v)"

definition count_true :: "bool list \<Rightarrow> nat" where
  "count_true bs = length (filter (\<lambda>b. b) bs)"

definition bool_mean :: "bool list \<Rightarrow> pyval" where
  "bool_mean bs =
     (if bs = [] then NaN else Number (real (count_true bs) / real (length bs)))"

text \<open>\<^verbatim>\<open>df.tail(n)\<close>: the last \<open>n\<close> rows, and all rows but the first \<open>-n\<close> when \<open>n\<close> is
  negative.\<close>

definition tail :: "int \<Rightarrow> 'a list \<Rightarrow> 'a list" where
  "tail n xs = (if 0 \<le> n then drop (length xs - nat n) xs else drop (nat (- n)) xs)"

text \<open>\<^verbatim>\<open>Series.unique()\<close>: the distinct values in order of first appearance.\<close>

fun unique_from :: "'a list \<Rightarrow> 'a list \<Rightarrow> 'a list" where
  "unique_from seen [] = []"
| "unique_from seen (x # xs) =
     (if x \<in> set seen then unique_from seen xs else x # unique_from (x # seen) xs)"

definition unique :: "'a list \<Rightarrow> 'a list" where
  "unique xs = unique_from [] xs"

text \<open>\<^verbatim>\<open>df.groupby(key)\<close> with the default \<^verbatim>\<open>sort=True\<close>: one group per distinct key, the
  groups in ascending key order, the rows of a group in the order of the table.\<close>

definition groupby :: "('r \<Rightarrow> 'k::linorder) \<Rightarrow> 'r list \<Rightarrow> ('k \<times> 'r list) list" where
  "groupby key rs =
     map (\<lambda>k. (k, filter (\<lambda>r. key r = k) rs)) (sort (remdups (map key rs)))"

section \<open>Tables\<close>

record 'r table =
  columns :: "string list"
  rows :: "'r list"

text \<open>One competitor's outcome in one event, after \<^verbatim>\<open>process_race_results\<close>. A column
  is present when \<^const>\<open>columns\<close> lists it. The feature pipeline is given tables that
  carry the key columns \<^verbatim>\<open>Season\<close>, \<^verbatim>\<open>Round\<close>, \<^verbatim>\<open>GrandPrix\<close> and \<^verbatim>\<open>TeamName\<close>;
  \<^verbatim>\<open>compute_driver_features\<close>, which is also given the table without columns that a
  failed load returns, raises \<^verbatim>\<open>KeyError\<close> where it reads \<^verbatim>\<open>Abbreviation\<close> or \<^verbatim>\<open>Date\<close>
  and the column is absent. \<^verbatim>\<open>Position\<close>, \<^verbatim>\<open>GridPosition\<close>, \<^verbatim>\<open>Points\<close>,
  \<^verbatim>\<open>PositionsGained\<close> and \<^verbatim>\<open>IsDNF\<close> are tested where the source tests them. A date is a
  point on the time line.\<close>

record result_row =
  Season :: int
  Round :: int
  GrandPrix :: string
  Abbreviation :: string
  TeamName :: string
  Date :: int
  Position :: "real option"
  GridPosition :: "real option"
  Points :: "real option"
  PositionsGained :: "real option"
  IsDNF :: bool

type_synonym results_table = "result_row table"

definition has_column :: "('r, 'z) table_scheme \<Rightarrow> string \<Rightarrow> bool" where
  "has_column df c = (c \<in> set (columns df))"

section \<open>Driver features\<close>

definition default_driver_features :: features where
  "default_driver_features =
     [(''avg_finish_last_n'', Number 15.0),
      (''avg_grid_last_n'', Number 15.0),
      (''avg_points_last_n'', Number 0.0),
      (''wins_last_n'', Number 0),
      (''podiums_last_n'', Number 0),
      (''points_finishes_last_n'', Number 0),
      (''avg_positions_gained'', Number 0.0),
      (''dnf_rate'', Number 0.1),
      (''career_races'', Number 0),
      (''career_wins'', Number 0),
      (''career_podiums'', Number 0),
      (''career_points'', Number 0.0),
      (''season_points'', Number 0.0),
      (''season_position'', Number 20)]"

text \<open>\<^verbatim>\<open>sort_values("Date")\<close> is the stable \<^const>\<open>sort_key\<close>; pandas leaves the order of
  rows with equal dates to its sorting algorithm. An \<^verbatim>\<open>as_of_date\<close> is a timestamp,
  which is always true as a condition, so the cutoff applies whenever one is given.\<close>

definition driver_history :: "results_table \<Rightarrow> string \<Rightarrow> int option \<Rightarrow> result_row list" where
  "driver_history results driver_id as_of_date =
     (let df = filter (\<lambda>r. Abbreviation r = driver_id) (rows results)
      in case as_of_date of
           None \<Rightarrow> df
         | Some t \<Rightarrow> filter (\<lambda>r. Date r < t) df)"

definition compute_driver_features ::
    "results_table \<Rightarrow> string \<Rightarrow> int option \<Rightarrow> int \<Rightarrow> error + features" where
  "compute_driver_features results driver_id as_of_date window =
     (if \<not> has_column results ''Abbreviation'' then Inl (KeyError ''Abbreviation'')
      else if as_of_date \<noteq> None \<and> \<not> has_column results ''Date'' then Inl (KeyError ''Date'')
      else
        (let df = driver_history results driver_id as_of_date
         in if length df = 0 then Inr default_driver_features
            else if \<not> has_column results ''Date'' then Inl (KeyError ''Date'')
            else
           (let df = sort_key Date df;
                recent = tail window df;
                has = has_column results
            in Inr [(''avg_finish_last_n'',
                   if has ''Position'' then series_mean (map Position recent) else NaN),
                (''avg_grid_last_n'',
                   if has ''GridPosition'' then series_mean (map GridPosition recent) else NaN),
                (''avg_points_last_n'',
                   if has ''Points'' then series_mean (map Points recent) else Number 0),
                (''wins_last_n'',
                   if has ''Position''
                   then Number (real (count_true (map (\<lambda>r. eq_cell (Position r) 1) recent)))
                   else Number 0),
                (''podiums_last_n'',
                   if has ''Position''
                   then Number (real (count_true (map (\<lambda>r. le_cell (Position r) 3) recent)))
                   else Number 0),
                (''points_finishes_last_n'',
                   if has ''Position''
                   then Number (real (count_true (map (\<lambda>r. le_cell (Position r) 10) recent)))
                   else Number 0),
                (''avg_positions_gained'',
                   if has ''PositionsGained''
                   then series_mean (map PositionsGained recent) else Number 0),
                (''dnf_rate'', if has ''IsDNF'' then bool_mean (map IsDNF df) else Number 0),
                (''career_races'', Number (real (length df))),
                (''career_wins'',
                   if has ''Position''
                   then Number (real (count_true (map (\<lambda>r. eq_cell (Position r) 1) df)))
                   else Number 0),
                (''career_podiums'',
                   if has ''Position''
                   then Number (real (count_true (map (\<lambda>r. le_cell (Position r) 3) df)))
                   else Number 0),
                (''career_points'',
                   if has ''Points'' then Number (series_sum (map Points df)) else Number 0),
                (''season_points'', Number 0),
                (''season_position'', Number 0)])))"

section \<open>Circuit features\<close>

text \<open>A driver identifier used as a condition (\<^verbatim>\<open>if driver_id:\<close>) is true when it is given
  and not the empty string.\<close>

definition truthy :: "string option \<Rightarrow> bool" where
  "truthy s = (case s of None \<Rightarrow> False | Some v \<Rightarrow> v \<noteq> [])"

definition default_circuit_features :: features where
  "default_circuit_features =
     [(''circuit_races_in_data'', Number 0),
      (''circuit_sc_rate'', Number 0.5),
      (''avg_position_changes'', Number 3.0),
      (''circuit_dnf_rate'', Number 0.1)]"

definition compute_circuit_features ::
    "results_table \<Rightarrow> string \<Rightarrow> string option \<Rightarrow> error + features" where
  "compute_circuit_features results circuit_name driver_id =
     (let circuit_df = filter (\<lambda>r. GrandPrix r = circuit_name) (rows results);
          has = has_column results
      in if length circuit_df = 0 then Inr default_circuit_features
         else
           (let features =
                  [(''circuit_races_in_data'',
                      Number (real (length (unique (map Season circuit_df))))),
                   (''circuit_sc_rate'', Number 0.5),
                   (''avg_position_changes'',
                      if has ''PositionsGained''
                      then series_mean (map (\<lambda>r. map_option abs (PositionsGained r)) circuit_df)
                      else Number 3.0),
                   (''circuit_dnf_rate'',
                      if has ''IsDNF'' then bool_mean (map IsDNF circuit_df) else Number 0.1)]
            in if truthy driver_id
               then
                 (let driver_circuit =
                        filter (\<lambda>r. Some (Abbreviation r) = driver_id) circuit_df
                  in if length driver_circuit > 0
                     then
                       (if has ''Position''
                        then Inr (dict_update features
                               [(''driver_circuit_races'', Number (real (length driver_circuit))),
                                (''driver_circuit_avg_finish'',
                                   series_mean (map Position driver_circuit)),
                                (''driver_circuit_best_finish'',
                                   series_min (map Position driver_circuit)),
                                (''driver_circuit_wins'',
                                   Number (real (count_true
                                     (map (\<lambda>r. eq_cell (Position r) 1) driver_circuit)))),
                                (''driver_circuit_podiums'',
                                   Number (real (count_true
                                     (map (\<lambda>r. le_cell (Position r) 3) driver_circuit))))])
                        else Inl (KeyError ''Position''))
                     else Inr (dict_update features
                            [(''driver_circuit_races'', Number 0),
                             (''driver_circuit_avg_finish'', Number 10.0),
                             (''driver_circuit_best_finish'', Number 10),
                             (''driver_circuit_wins'', Number 0),
                             (''driver_circuit_podiums'', Number 0)]))
               else Inr features))"

section \<open>Team features\<close>

definition default_team_features :: features where
  "default_team_features =
     [(''team_avg_points_last_n'', Number 5.0),
      (''team_avg_finish_last_n'', Number 10.0),
      (''team_season_points'', Number 0.0),
      (''team_constructor_position'', Number 5),
      (''team_reliability_rate'', Number 0.9)]"

definition team_history :: "results_table \<Rightarrow> string \<Rightarrow> int option \<Rightarrow> result_row list" where
  "team_history results team_name as_of_date =
     (let df = filter (\<lambda>r. TeamName r = team_name) (rows results)
      in case as_of_date of
           None \<Rightarrow> df
         | Some t \<Rightarrow> filter (\<lambda>r. Date r < t) df)"

text \<open>The aggregation per race sums the points (0 when none is present) and averages the
  positions (NaN when none is present) of the team's entries; it needs both columns.\<close>

definition compute_team_features ::
    "results_table \<Rightarrow> string \<Rightarrow> int option \<Rightarrow> int \<Rightarrow> error + features" where
  "compute_team_features results team_name as_of_date window =
     (let df = team_history results team_name as_of_date;
          has = has_column results
      in if length df = 0 then Inr default_team_features
         else
           (let df = sort_key Date df
            in if \<not> has ''Points'' then Inl (KeyError ''Points'')
               else if \<not> has ''Position'' then Inl (KeyError ''Position'')
               else
                 (let team_races =
                        map (\<lambda>g. (Some (series_sum (map Points (snd g))),
                                  mean_cell (map Position (snd g))))
                          (groupby (\<lambda>r. (Season r, Round r)) df);
                      recent = tail window team_races
                  in Inr
                       [(''team_avg_points_last_n'', series_mean (map fst recent)),
                        (''team_avg_finish_last_n'', series_mean (map snd recent)),
                        (''team_season_points'', Number 0),
                        (''team_constructor_position'', Number 5),
                        (''team_reliability_rate'',
                           if has ''IsDNF''
                           then (case bool_mean (map IsDNF df) of
                                   Number m \<Rightarrow> Number (1 - m)
                                 | other \<Rightarrow> NaN)
                           else Number 0.9)])))"

section \<open>Session features\<close>

text \<open>A qualifying time is a duration (a pandas \<^verbatim>\<open>Timedelta\<close>, \<^verbatim>\<open>NaT\<close> when missing) or a
  number of seconds (a float, NaN when missing). Qualifying tables mirror results tables
  and add the session times; \<^verbatim>\<open>Position\<close> and \<^verbatim>\<open>Q3\<close> are present when \<^const>\<open>columns\<close>
  lists them.\<close>

datatype qtime = Timedelta real | NaT | Seconds real | SecondsNaN

record quali_row = result_row +
  Q3 :: qtime

type_synonym quali_table = "quali_row table"

text \<open>One lap of one driver.\<close>

record lap_row =
  Driver :: string
  LapNumber :: int
  LapTimeSeconds :: "real option"
  Compound :: "string option"

type_synonym lap_table = "lap_row table"

text \<open>The value of a time as a condition: a zero duration and a zero float are false,
  every other time is true, \<^verbatim>\<open>NaT\<close> and NaN included; Python's \<^verbatim>\<open>None\<close> is false.\<close>

definition truthy_time :: "qtime option \<Rightarrow> bool" where
  "truthy_time t =
     (case t of
        None \<Rightarrow> False
      | Some (Timedelta s) \<Rightarrow> s \<noteq> 0
      | Some NaT \<Rightarrow> True
      | Some (Seconds s) \<Rightarrow> s \<noteq> 0
      | Some SecondsNaN \<Rightarrow> True)"

definition notna :: "qtime \<Rightarrow> bool" where
  "notna t = (case t of Timedelta s \<Rightarrow> True | NaT \<Rightarrow> False | Seconds s \<Rightarrow> True | SecondsNaN \<Rightarrow> False)"

text \<open>\<^verbatim>\<open>total_seconds()\<close> where the value has it (a duration; NaN for \<^verbatim>\<open>NaT\<close>), the value
  itself otherwise.\<close>

definition total_seconds :: "qtime \<Rightarrow> real option" where
  "total_seconds t =
     (case t of Timedelta s \<Rightarrow> Some s | NaT \<Rightarrow> None | Seconds s \<Rightarrow> Some s | SecondsNaN \<Rightarrow> None)"

definition minus_cell :: "real option \<Rightarrow> real option \<Rightarrow> pyval" where
  "minus_cell a b = (case a of None \<Rightarrow> NaN | Some x \<Rightarrow> (case b of None \<Rightarrow> NaN | Some y \<Rightarrow> Number (x - y)))"

text \<open>The pole time: the \<^verbatim>\<open>Q3\<close> cell of the first row whose position is 1, or \<^verbatim>\<open>None\<close>
  when the table has no \<^verbatim>\<open>Q3\<close> column. \<^verbatim>\<open>.iloc[0]\<close> raises when no row has position 1.\<close>

definition pole_time :: "quali_table \<Rightarrow> error + qtime option" where
  "pole_time quali_results =
     (if has_column quali_results ''Q3''
      then
        (if has_column quali_results ''Position''
         then (case filter (\<lambda>r. eq_cell (Position r) 1) (rows quali_results) of
                 [] \<Rightarrow> Inl IndexError
               | r # rs \<Rightarrow> Inr (Some (Q3 r)))
         else Inl (KeyError ''Position''))
      else Inr None)"

definition quali_features :: "quali_table \<Rightarrow> string option \<Rightarrow> features \<Rightarrow> error + features" where
  "quali_features quali_results driver_id features =
     (if truthy driver_id \<and> length (rows quali_results) > 0
      then
        (case filter (\<lambda>r. Some (Abbreviation r) = driver_id) (rows quali_results) of
           [] \<Rightarrow> Inr features
         | row # others \<Rightarrow>
             (let features = AList.update ''grid_position''
                    (if has_column quali_results ''Position'' then of_cell (Position row)
                     else Number 10) features
              in bind_err (pole_time quali_results)
                   (\<lambda>pole.
                      if truthy_time pole \<and> has_column quali_results ''Q3'' \<and> notna (Q3 row)
                      then Inr (AList.update ''quali_gap_to_pole''
                                  (minus_cell (total_seconds (Q3 row))
                                     (case pole of None \<Rightarrow> None | Some p \<Rightarrow> total_seconds p))
                                  features)
                      else Inr (AList.update ''quali_gap_to_pole'' (Number 1.0) features))))
      else Inr features)"

definition practice_features :: "lap_table option \<Rightarrow> string option \<Rightarrow> features \<Rightarrow> error + features" where
  "practice_features practice_laps driver_id features =
     (case practice_laps of
        None \<Rightarrow> Inr features
      | Some laps \<Rightarrow>
          if truthy driver_id \<and> length (rows laps) > 0
          then
            (let driver_practice = filter (\<lambda>r. Some (Driver r) = driver_id) (rows laps)
             in if length driver_practice > 0
                then
                  (if has_column laps ''LapTimeSeconds''
                   then Inr (AList.update ''fp_lap_count'' (Number (real (length driver_practice)))
                          (AList.update ''fp_avg_lap_time''
                             (series_mean (map LapTimeSeconds driver_practice))
                             (AList.update ''fp_best_lap_time''
                                (series_min (map LapTimeSeconds driver_practice)) features)))
                   else Inl (KeyError ''LapTimeSeconds''))
                else Inr features)
          else Inr features)"

definition compute_session_features ::
    "quali_table \<Rightarrow> lap_table option \<Rightarrow> string option \<Rightarrow> error + features" where
  "compute_session_features quali_results practice_laps driver_id =
     bind_err (quali_features quali_results driver_id [])
       (\<lambda>features. practice_features practice_laps driver_id features)"

section \<open>Full feature pipeline\<close>

text \<open>The records strictly before the target race, and the records of the target race.\<close>

definition before_target :: "int \<Rightarrow> int \<Rightarrow> ('z) result_row_scheme \<Rightarrow> bool" where
  "before_target target_season target_round r =
     (Season r < target_season \<or> (Season r = target_season \<and> Round r < target_round))"

definition at_target :: "int \<Rightarrow> int \<Rightarrow> ('z) result_row_scheme \<Rightarrow> bool" where
  "at_target target_season target_round r =
     (Season r = target_season \<and> Round r = target_round)"

text \<open>The body of the loop over the drivers of the target race: the four feature groups
  are computed first, then the row is put together, which reads the target's position
  and points.\<close>

definition feature_row ::
    "results_table \<Rightarrow> result_row list \<Rightarrow> quali_table \<Rightarrow> int \<Rightarrow> int \<Rightarrow> string \<Rightarrow> string \<Rightarrow>
     error + features" where
  "feature_row historical target_race quali_results target_season target_round circuit_name driver =
     (case filter (\<lambda>r. Abbreviation r = driver) target_race of
        [] \<Rightarrow> Inl IndexError
      | driver_row # others \<Rightarrow>
          (bind_err (compute_driver_features historical driver None 5)
                (\<lambda>driver_features.
           bind_err (compute_circuit_features historical circuit_name (Some driver))
                (\<lambda>circuit_features.
           bind_err (compute_team_features historical (TeamName driver_row) None 5)
                (\<lambda>team_features.
           bind_err (compute_session_features quali_results None (Some driver))
                (\<lambda>session_features.
           if \<not> has_column historical ''Position'' then Inl (KeyError ''Position'')
           else if \<not> has_column historical ''Points'' then Inl (KeyError ''Points'')
           else Inr (dict_update []
                  ([(''Season'', Number (of_int target_season)),
                    (''Round'', Number (of_int target_round)),
                    (''GrandPrix'', Str circuit_name),
                    (''Driver'', Str driver),
                    (''Team'', Str (TeamName driver_row))]
                   @ driver_features @ circuit_features @ team_features @ session_features
                   @ [(''Position'', of_cell (Position driver_row)),
                      (''Points'', of_cell (Points driver_row)),
                      (''IsWinner'', Boolean (eq_cell (Position driver_row) 1)),
                      (''IsPodium'', Boolean (le_cell (Position driver_row) 3)),
                      (''IsPoints'', Boolean (le_cell (Position driver_row) 10))]))))))))"

text \<open>The result is the list of row dictionaries from which the feature table is built:
  a cell of that table is missing where the row's dictionary has no such key. With no
  record of the target race the table is empty.\<close>

definition build_race_features ::
    "results_table \<Rightarrow> quali_table \<Rightarrow> int \<Rightarrow> int \<Rightarrow> error + features list" where
  "build_race_features race_results quali_results target_season target_round =
     (let historical =
            race_results\<lparr>rows := filter (before_target target_season target_round)
                                    (rows race_results)\<rparr>;
          target_race = filter (at_target target_season target_round) (rows race_results)
      in case target_race of
           [] \<Rightarrow> Inr []
         | first # others \<Rightarrow>
             (let circuit_name = GrandPrix first;
                  drivers = unique (map Abbreviation target_race)
              in for_each
                   (feature_row historical target_race quali_results target_season
                      target_round circuit_name)
                   drivers))"

text \<open>The target labels of a row, and the row without them: the identifying keys and the
  four feature groups. The identifying keys of a record of the target race are the ones
  the pipeline reads to choose what it computes: the driver, the team and the event.\<close>

definition target_keys :: "string list" where
  "target_keys = [''Position'', ''Points'', ''IsWinner'', ''IsPodium'', ''IsPoints'']"

definition drop_targets :: "features \<Rightarrow> features" where
  "drop_targets row = filter (\<lambda>kv. fst kv \<notin> set target_keys) row"

definition row_keys :: "result_row \<Rightarrow> string \<times> string \<times> string" where
  "row_keys r = (Abbreviation r, TeamName r, GrandPrix r)"

section \<open>Tire degradation features\<close>

text \<open>\<^verbatim>\<open>Series.shift()\<close> moves every cell one row down and leaves the first cell missing.
  The comparison \<^verbatim>\<open>!=\<close> of two cells holds when either is missing, so the first lap always
  opens a stint. \<^verbatim>\<open>cumsum\<close> is the running count of the comparisons that hold.\<close>

definition shift :: "'a option list \<Rightarrow> 'a option list" where
  "shift xs = (if xs = [] then [] else None # butlast xs)"

fun ne_cell :: "'a option \<Rightarrow> 'a option \<Rightarrow> bool" where
  "ne_cell (Some a) (Some b) = (a \<noteq> b)"
| "ne_cell a b = True"

fun cumsum_from :: "int \<Rightarrow> bool list \<Rightarrow> int list" where
  "cumsum_from acc [] = []"
| "cumsum_from acc (b # bs) = (acc + (if b then 1 else 0)) # cumsum_from (acc + (if b then 1 else 0)) bs"

definition cumsum :: "bool list \<Rightarrow> int list" where
  "cumsum bs = cumsum_from 0 bs"

text \<open>\<^verbatim>\<open>groupby(key).cumcount()\<close>: for every row, the number of earlier rows of its group.\<close>

fun cumcount_from :: "'a list \<Rightarrow> 'a list \<Rightarrow> nat list" where
  "cumcount_from seen [] = []"
| "cumcount_from seen (x # xs) = count_list seen x # cumcount_from (x # seen) xs"

definition cumcount :: "'a list \<Rightarrow> nat list" where
  "cumcount xs = cumcount_from [] xs"

text \<open>A lap with the two columns the function adds to the driver's laps.\<close>

record stint_lap = lap_row +
  StintNumber :: int
  TireAge :: int

text \<open>The driver's laps in lap order with their stint number and tire age (the table
  \<^verbatim>\<open>driver_laps\<close> of the source after its two assignments). Laps with the same lap
  number keep their order; pandas leaves it to the sorting algorithm.\<close>

definition stint_numbers :: "lap_table \<Rightarrow> lap_row list \<Rightarrow> int list" where
  "stint_numbers laps driver_laps =
     (if has_column laps ''Compound''
      then cumsum (map (\<lambda>cp. ne_cell (fst cp) (snd cp))
                     (zip (map Compound driver_laps) (shift (map Compound driver_laps))))
      else map (\<lambda>r. 1) driver_laps)"

definition driver_stint_laps :: "lap_table \<Rightarrow> string \<Rightarrow> stint_lap list" where
  "driver_stint_laps laps driver_id =
     (let driver_laps = sort_key LapNumber (filter (\<lambda>r. Driver r = driver_id) (rows laps));
          stints = stint_numbers laps driver_laps;
          ages = map (\<lambda>c. int c + 1) (cumcount stints)
      in map (\<lambda>rsa. lap_row.extend (fst rsa)
                      (stint_lap.fields (fst (snd rsa)) (snd (snd rsa))))
           (zip driver_laps (zip stints ages)))"

text \<open>\<^verbatim>\<open>np.polyfit(x, y, 1)\<close>: the least-squares line through the points, as the solution
  of its normal equations (slope first, then intercept). numpy solves the same problem by
  a singular value decomposition; the two agree whenever the points have two distinct
  abscissas, which is the case at every call below.\<close>

definition polyfit1 :: "real list \<Rightarrow> real list \<Rightarrow> real \<times> real" where
  "polyfit1 xs ys =
     (let n = real (length xs);
          sx = sum_list xs;
          sy = sum_list ys;
          sxx = sum_list (map (\<lambda>x. x * x) xs);
          sxy = sum_list (map (\<lambda>xy. fst xy * snd xy) (zip xs ys));
          slope = (n * sxy - sx * sy) / (n * sxx - sx * sx)
      in (slope, (sy - slope * sx) / n))"

text \<open>The features of one stint: none for a stint of fewer than three laps, for a table
  without lap times, and for a stint with fewer than three valid lap times.\<close>

definition stint_feature_rows :: "lap_table \<Rightarrow> int \<times> stint_lap list \<Rightarrow> features list" where
  "stint_feature_rows laps grp =
     (let stint = fst grp; stint_df = snd grp
      in if length stint_df < 3 then []
         else if has_column laps ''LapTimeSeconds''
         then
           (let valid = filter (\<lambda>r. LapTimeSeconds r \<noteq> None) stint_df;
                x = map (\<lambda>r. real_of_int (TireAge r)) valid;
                y = dropna (map LapTimeSeconds stint_df)
            in if length valid \<ge> 3
               then [[(''StintNumber'', Number (real_of_int stint)),
                      (''Compound'',
                         if has_column laps ''Compound''
                         then (case stint_df of
                                 [] \<Rightarrow> NaN
                               | r # rs \<Rightarrow> (case Compound r of None \<Rightarrow> NaN | Some c \<Rightarrow> Str c))
                         else Str ''Unknown''),
                      (''StintLength'', Number (real (length stint_df))),
                      (''DegradationRate'', Number (fst (polyfit1 x y))),
                      (''AvgLapTime'', Number (sum_list y / real (length y))),
                      (''BestLapTime'', Number (Min (set y)))]]
               else [])
         else [])"

text \<open>The source reads the columns \<^verbatim>\<open>Driver\<close> and \<^verbatim>\<open>LapNumber\<close> without a test, which
  raises \<^verbatim>\<open>KeyError\<close> on a table that lacks them. The result is the list of row
  dictionaries from which the table of stint features is built.\<close>

definition compute_tire_features :: "lap_table \<Rightarrow> string \<Rightarrow> error + features list" where
  "compute_tire_features laps driver_id =
     (if \<not> has_column laps ''Driver'' then Inl (KeyError ''Driver'')
      else
        (let driver_laps = filter (\<lambda>r. Driver r = driver_id) (rows laps)
         in if length driver_laps = 0 then Inr []
            else if \<not> has_column laps ''LapNumber'' then Inl (KeyError ''LapNumber'')
            else Inr (concat (map (stint_feature_rows laps)
                                (groupby StintNumber (driver_stint_laps laps driver_id))))))"



definition lap_ages :: "stint_lap list \<Rightarrow> real list" where
  "lap_ages rs = map (\<lambda>r. real_of_int (TireAge r)) rs"

definition lap_times :: "stint_lap list \<Rightarrow> real list" where
  "lap_times rs = map (\<lambda>r. the (LapTimeSeconds r)) rs"




section \<open>Feature scaling\<close>

text \<open>A table given to the scaler is the list of its columns, each a label with its cells,
  and the labels are distinct. A cell is a finite number, a missing value (NaN or
  \<^verbatim>\<open>None\<close>), an infinite number, or a value that is not a number. The source copies the
  table first (\<^verbatim>\<open>df = df.copy()\<close>) and assigns into the copy, so the caller's table is
  never written; the model returns the new table as a value.\<close>

datatype cell = Num real | Missing | Infinite | Text string

type_synonym column = "cell list"

type_synonym dataframe = "(string \<times> column) list"

definition df_columns :: "dataframe \<Rightarrow> string list" where
  "df_columns df = map fst df"

text \<open>The columns of a table have the same length, the number of its rows; a table
  without columns has no row.\<close>

definition n_rows :: "dataframe \<Rightarrow> nat" where
  "n_rows df = (case df of [] \<Rightarrow> 0 | c # cs \<Rightarrow> length (snd c))"

text \<open>\<^verbatim>\<open>fillna(0)\<close> puts 0 in the missing cells and keeps the others, so that no entry of
  its result is missing: an entry is a finite number, an infinite one, or an object that
  is not a number.\<close>

datatype entry = Float real | Infinity | Object string

definition fillna0 :: "column \<Rightarrow> entry list" where
  "fillna0 col =
     map (\<lambda>c. case c of
                 Num v \<Rightarrow> Float v
               | Missing \<Rightarrow> Float 0
               | Infinite \<Rightarrow> Infinity
               | Text s \<Rightarrow> Object s) col"

text \<open>\<^verbatim>\<open>df[cols].fillna(0)\<close>, as the list of the selected columns; it has the rows of the
  table also when no column is selected.\<close>

definition column_of :: "dataframe \<Rightarrow> string \<Rightarrow> column" where
  "column_of df c = (case map_of df c of None \<Rightarrow> [] | Some col \<Rightarrow> col)"

definition select_filled :: "dataframe \<Rightarrow> string list \<Rightarrow> entry list list" where
  "select_filled df cols = map (\<lambda>c. fillna0 (column_of df c)) cols"

text \<open>\<^verbatim>\<open>df[cols] = values\<close>: the columns are assigned one after the other.\<close>

definition assign_columns :: "dataframe \<Rightarrow> string list \<Rightarrow> real list list \<Rightarrow> dataframe" where
  "assign_columns df cols values =
     foldl (\<lambda>d cy. AList.update (fst cy) (map Num (snd cy)) d) df (zip cols values)"

text \<open>The \<^verbatim>\<open>StandardScaler\<close> of scikit-learn, over the reals: per column the mean and the
  standard deviation of the population, a zero deviation replaced by 1. Fitting and
  transforming validate their input first, in this order: the conversion to an array of
  floats raises \<^verbatim>\<open>ValueError\<close> on an entry that is not a number, then an infinite entry is
  refused, then an array with no row, then an array with no column. Transforming also
  raises when the number of columns is not the one seen by the fit. The first argument is
  the number of rows of the array.\<close>

definition is_object :: "entry \<Rightarrow> bool" where
  "is_object e = (case e of Object s \<Rightarrow> True | Float v \<Rightarrow> False | Infinity \<Rightarrow> False)"

definition is_infinity :: "entry \<Rightarrow> bool" where
  "is_infinity e = (case e of Infinity \<Rightarrow> True | Float v \<Rightarrow> False | Object s \<Rightarrow> False)"

definition float_of :: "entry \<Rightarrow> real" where
  "float_of e = (case e of Float v \<Rightarrow> v | Infinity \<Rightarrow> 0 | Object s \<Rightarrow> 0)"

definition check_array :: "nat \<Rightarrow> entry list list \<Rightarrow> error + real list list" where
  "check_array n X =
     (if list_ex is_object (concat X)
      then Inl (ValueError ''could not convert string to float'')
      else if list_ex is_infinity (concat X)
      then Inl (ValueError ''Input X contains infinity'')
      else if n = 0 then Inl (ValueError ''Found array with 0 sample(s)'')
      else if X = [] then Inl (ValueError ''Found array with 0 feature(s)'')
      else Inr (map (map float_of) X))"

text \<open>The fields are \<^verbatim>\<open>mean_\<close> and \<^verbatim>\<open>scale_\<close> of the fitted scaler.\<close>

record standard_scaler =
  means :: "real list"
  scales :: "real list"

definition column_mean :: "real list \<Rightarrow> real" where
  "column_mean xs = sum_list xs / real (length xs)"

definition column_var :: "real list \<Rightarrow> real" where
  "column_var xs =
     (let m = column_mean xs in sum_list (map (\<lambda>x. (x - m)\<^sup>2) xs) / real (length xs))"

definition column_scale :: "real list \<Rightarrow> real" where
  "column_scale xs = (let v = column_var xs in if v = 0 then 1 else sqrt v)"

definition scaler_fit :: "nat \<Rightarrow> entry list list \<Rightarrow> error + standard_scaler" where
  "scaler_fit n X =
     bind_err (check_array n X)
       (\<lambda>A. Inr \<lparr>means = map column_mean A, scales = map column_scale A\<rparr>)"

definition scale_column :: "real list \<times> real \<times> real \<Rightarrow> real list" where
  "scale_column xms = map (\<lambda>x. (x - fst (snd xms)) / snd (snd xms)) (fst xms)"

definition scaler_transform ::
    "standard_scaler \<Rightarrow> nat \<Rightarrow> entry list list \<Rightarrow> error + real list list" where
  "scaler_transform sc n X =
     bind_err (check_array n X)
       (\<lambda>A. if length A \<noteq> length (means sc)
            then Inl (ValueError ''X has a different number of features'')
            else Inr (map scale_column (zip A (zip (means sc) (scales sc)))))"

definition scaler_fit_transform ::
    "nat \<Rightarrow> entry list list \<Rightarrow> error + (standard_scaler \<times> real list list)" where
  "scaler_fit_transform n X =
     bind_err (scaler_fit n X)
       (\<lambda>sc. bind_err (scaler_transform sc n X) (\<lambda>Y. Inr (sc, Y)))"

text \<open>The registry \<^verbatim>\<open>self.scalers\<close>: a name is bound to the fitted scaler and the columns
  it was fit on. \<^verbatim>\<open>fit_scaler\<close> returns the scaled table and the new registry; when it
  raises, the registry is the one before the call, as the assignment to the registry comes
  last.\<close>

type_synonym registry = "string \<rightharpoonup> (standard_scaler \<times> string list)"

definition fit_scaler ::
    "registry \<Rightarrow> dataframe \<Rightarrow> string list \<Rightarrow> string \<Rightarrow> error + (dataframe \<times> registry)" where
  "fit_scaler scalers df cols scaler_name =
     (let valid_cols = filter (\<lambda>c. c \<in> set (df_columns df)) cols
      in if valid_cols = [] then Inr (df, scalers)
         else bind_err (scaler_fit_transform (n_rows df) (select_filled df valid_cols))
                (\<lambda>fitted. Inr (assign_columns df valid_cols (snd fitted),
                                scalers(scaler_name \<mapsto> (fst fitted, valid_cols)))))"

definition transform_scaler :: "registry \<Rightarrow> dataframe \<Rightarrow> string \<Rightarrow> error + dataframe" where
  "transform_scaler scalers df scaler_name =
     (case scalers scaler_name of
        None \<Rightarrow> Inl (ScalerNotFound scaler_name)
      | Some scaler_info \<Rightarrow>
          (let valid_cols = filter (\<lambda>c. c \<in> set (df_columns df)) (snd scaler_info)
           in bind_err (scaler_transform (fst scaler_info) (n_rows df)
                          (select_filled df valid_cols))
                (\<lambda>Y. Inr (assign_columns df valid_cols Y))))"

text \<open>The cells the scaler accepts after the zero fill, and the number it sees in them.\<close>

definition finite_or_missing :: "cell \<Rightarrow> bool" where
  "finite_or_missing c =
     (case c of Num v \<Rightarrow> True | Missing \<Rightarrow> True | Infinite \<Rightarrow> False | Text s \<Rightarrow> False)"

definition zero_filled :: "cell \<Rightarrow> real" where
  "zero_filled c = (case c of Num v \<Rightarrow> v | Missing \<Rightarrow> 0 | Infinite \<Rightarrow> 0 | Text s \<Rightarrow> 0)"

definition accepted :: "dataframe \<Rightarrow> string list \<Rightarrow> bool" where
  "accepted df cols = list_all (\<lambda>c. list_all finite_or_missing (column_of df c)) cols"

section \<open>Rolling driver statistics\<close>

text \<open>\<^verbatim>\<open>Series.rolling(window, min_periods=1)\<close>: the window of a row holds the row and
  the rows before it in its group, at most \<open>window\<close> of them; it is a buffer that takes the
  next row and drops the oldest one when it is full. The mean of a window skips missing
  cells and is NaN when every cell is missing, and so is the sum.\<close>

fun rolling_from :: "nat \<Rightarrow> 'a list \<Rightarrow> 'a list \<Rightarrow> 'a list list" where
  "rolling_from w buf [] = []"
| "rolling_from w buf (x # xs) =
     (let b = drop (Suc (length buf) - w) (buf @ [x]) in b # rolling_from w b xs)"

definition rolling :: "nat \<Rightarrow> 'a list \<Rightarrow> 'a list list" where
  "rolling w xs = rolling_from w [] xs"

definition rolling_sum :: "real option list \<Rightarrow> pyval" where
  "rolling_sum win = (let vs = dropna win in if vs = [] then NaN else Number (sum_list vs))"

text \<open>The six columns that \<^verbatim>\<open>compute_driver_stats\<close> adds to a row. The window of a row is
  the same for the six, so the model slides one window of rows and reads the columns in
  it. A comparison is a column of booleans, which are summed as 0 and 1.\<close>

record driver_stats =
  AvgFinishLast5 :: pyval
  AvgGridLast5 :: pyval
  WinsLast5 :: pyval
  PodiumsLast5 :: pyval
  PointsLast5 :: pyval
  DNFsLast5 :: pyval

definition window_stats :: "results_table \<Rightarrow> result_row list \<Rightarrow> driver_stats" where
  "window_stats results win =
     \<lparr>AvgFinishLast5 = series_mean (map Position win),
      AvgGridLast5 = series_mean (map GridPosition win),
      WinsLast5 = Number (real (count_true (map (\<lambda>r. eq_cell (Position r) 1) win))),
      PodiumsLast5 = Number (real (count_true (map (\<lambda>r. le_cell (Position r) 3) win))),
      PointsLast5 = rolling_sum (map Points win),
      DNFsLast5 = (if has_column results ''IsDNF''
                   then Number (real (count_true (map IsDNF win))) else Number 0)\<rparr>"

definition group_stats :: "results_table \<Rightarrow> nat \<Rightarrow> result_row list \<Rightarrow> driver_stats list" where
  "group_stats results window x = map (window_stats results) (rolling window x)"



section \<open>Example data\<close>

definition mk_result ::
    "int \<Rightarrow> int \<Rightarrow> string \<Rightarrow> string \<Rightarrow> string \<Rightarrow> int \<Rightarrow> real option \<Rightarrow> real option \<Rightarrow>
     real option \<Rightarrow> bool \<Rightarrow> result_row" where
  "mk_result s r gp d tm dt pos grid pts dnf =
     \<lparr>Season = s, Round = r, GrandPrix = gp, Abbreviation = d, TeamName = tm, Date = dt,
      Position = pos, GridPosition = grid, Points = pts,
      PositionsGained = (case (grid, pos) of (Some g, Some p) \<Rightarrow> Some (g - p) | _ \<Rightarrow> None),
      IsDNF = dnf\<rparr>"

definition result_columns :: "string list" where
  "result_columns =
     [''Season'', ''Round'', ''GrandPrix'', ''Abbreviation'', ''TeamName'', ''Date'',
      ''Position'', ''GridPosition'', ''Points'', ''PositionsGained'', ''IsDNF'']"

definition ex_one_driver :: results_table where
  "ex_one_driver =
     \<lparr>columns = result_columns,
      rows = [mk_result 2023 1 ''Bahrain'' ''HAM'' ''Mercedes'' 10 (Some 5) (Some 7) (Some 10) False]\<rparr>"

definition mk_quali ::
    "int \<Rightarrow> int \<Rightarrow> string \<Rightarrow> string \<Rightarrow> string \<Rightarrow> int \<Rightarrow> real option \<Rightarrow> qtime \<Rightarrow> quali_row" where
  "mk_quali s r gp d tm dt pos q =
     result_row.extend (mk_result s r gp d tm dt pos None None False) (quali_row.fields q)"

definition quali_columns :: "string list" where
  "quali_columns =
     [''Season'', ''Round'', ''GrandPrix'', ''Abbreviation'', ''TeamName'', ''Date'',
      ''Position'', ''Q3'']"

text \<open>Two rounds of a season with two drivers; round 2 is the target of the examples.\<close>

definition ex_race :: results_table where
  "ex_race =
     \<lparr>columns = result_columns,
      rows =
        [mk_result 2023 1 ''Bahrain'' ''VER'' ''Red Bull'' 10 (Some 1) (Some 1) (Some 25) False,
         mk_result 2023 1 ''Bahrain'' ''HAM'' ''Mercedes'' 10 (Some 5) (Some 7) (Some 10) False,
         mk_result 2023 2 ''Jeddah'' ''VER'' ''Red Bull'' 20 (Some 2) (Some 15) (Some 18) False,
         mk_result 2023 2 ''Jeddah'' ''HAM'' ''Mercedes'' 20 (Some 5) (Some 7) (Some 10) False]\<rparr>"

text \<open>A qualifying table of round 2 that holds the pole sitter only.\<close>

definition ex_quali_ver :: quali_table where
  "ex_quali_ver =
     \<lparr>columns = quali_columns,
      rows = [mk_quali 2023 2 ''Jeddah'' ''VER'' ''Red Bull'' 19 (Some 1) (Timedelta 88.5)]\<rparr>"

text \<open>A qualifying table of round 2 in which no row has position 1.\<close>

definition ex_quali_no_pole :: quali_table where
  "ex_quali_no_pole =
     \<lparr>columns = quali_columns,
      rows = [mk_quali 2023 2 ''Jeddah'' ''VER'' ''Red Bull'' 19 (Some 2) (Timedelta 88.5)]\<rparr>"

text \<open>The table \<open>ex_race\<close> with the target records of round 2 given other results and
  with a later round 3 added.\<close>

definition ex_race_later :: results_table where
  "ex_race_later =
     \<lparr>columns = result_columns,
      rows =
        [mk_result 2023 1 ''Bahrain'' ''VER'' ''Red Bull'' 10 (Some 1) (Some 1) (Some 25) False,
         mk_result 2023 1 ''Bahrain'' ''HAM'' ''Mercedes'' 10 (Some 5) (Some 7) (Some 10) False,
         mk_result 2023 2 ''Jeddah'' ''VER'' ''Red Bull'' 20 (Some 7) (Some 15) (Some 6) False,
         mk_result 2023 2 ''Jeddah'' ''HAM'' ''Mercedes'' 20 None (Some 7) (Some 0) True,
         mk_result 2023 3 ''Melbourne'' ''VER'' ''Red Bull'' 30 (Some 1) (Some 1) (Some 25) False,
         mk_result 2023 3 ''Melbourne'' ''HAM'' ''Mercedes'' 30 (Some 2) (Some 3) (Some 18) False]\<rparr>"

text \<open>The table \<open>ex_race\<close> with one record of the target round altered: the team of VER
  in round 2.\<close>

definition ex_race_team :: results_table where
  "ex_race_team =
     \<lparr>columns = result_columns,
      rows =
        [mk_result 2023 1 ''Bahrain'' ''VER'' ''Red Bull'' 10 (Some 1) (Some 1) (Some 25) False,
         mk_result 2023 1 ''Bahrain'' ''HAM'' ''Mercedes'' 10 (Some 5) (Some 7) (Some 10) False,
         mk_result 2023 2 ''Jeddah'' ''VER'' ''Mercedes'' 20 (Some 2) (Some 15) (Some 18) False,
         mk_result 2023 2 ''Jeddah'' ''HAM'' ''Mercedes'' 20 (Some 5) (Some 7) (Some 10) False]\<rparr>"

text \<open>A numeric table with a missing cell and a constant column, and the registry after
  fitting the name \<open>n\<close> on its column \<open>a\<close> (mean 2, deviation 1).\<close>

definition mk_lap :: "string \<Rightarrow> int \<Rightarrow> real option \<Rightarrow> string option \<Rightarrow> lap_row" where
  "mk_lap d n t c = \<lparr>Driver = d, LapNumber = n, LapTimeSeconds = t, Compound = c\<rparr>"

definition lap_columns :: "string list" where
  "lap_columns = [''Driver'', ''LapNumber'', ''LapTimeSeconds'', ''Compound'']"

text \<open>Six laps of one driver on the compounds A, A, A, B, B, A; and three laps with a
  valid lap time whose compound is missing.\<close>

definition ex_stints :: lap_table where
  "ex_stints = \<lparr>columns = lap_columns,
     rows = [mk_lap ''VER'' 1 (Some 90) (Some ''A''),
             mk_lap ''VER'' 2 (Some 91) (Some ''A''),
             mk_lap ''VER'' 3 (Some 92) (Some ''A''),
             mk_lap ''VER'' 4 (Some 88) (Some ''B''),
             mk_lap ''VER'' 5 None (Some ''B''),
             mk_lap ''VER'' 6 (Some 89) (Some ''A'')]\<rparr>"

definition ex_missing_compound :: lap_table where
  "ex_missing_compound = \<lparr>columns = lap_columns,
     rows = [mk_lap ''VER'' 1 (Some 90) None,
             mk_lap ''VER'' 2 (Some 91) None,
             mk_lap ''VER'' 3 (Some 92) None]\<rparr>"



definition ex_no_columns :: results_table where
  "ex_no_columns = \<lparr>columns = [], rows = []\<rparr>"

definition ex_df :: dataframe where
  "ex_df = [(''a'', [Num 1, Num 3]), (''b'', [Num 5, Missing]), (''c'', [Num 7, Num 7])]"

definition ex_registry :: registry where
  "ex_registry = [''n'' \<mapsto> (\<lparr>means = [2], scales = [1]\<rparr>, [''a''])]"

section \<open>Auxiliary facts\<close>

lemmas example_defs =
  ex_one_driver_def ex_race_def ex_race_later_def ex_race_team_def ex_quali_ver_def ex_quali_no_pole_def mk_result_def mk_quali_def
  result_columns_def quali_columns_def result_row.extend_def quali_row.fields_def

lemmas feature_defs =
  build_race_features_def before_target_def at_target_def unique_def feature_row_def
  compute_driver_features_def driver_history_def compute_circuit_features_def
  compute_team_features_def team_history_def compute_session_features_def quali_features_def
  practice_features_def pole_time_def has_column_def truthy_def truthy_time_def notna_def
  total_seconds_def minus_cell_def eq_cell_def le_cell_def bind_err_def dict_update_def
  dict_keys_def series_mean_def mean_cell_def series_sum_def series_min_def of_cell_def
  count_true_def bool_mean_def tail_def groupby_def default_driver_features_def
  default_circuit_features_def default_team_features_def Let_def

lemma map_result_simps [simp]:
  "map_result f (Inl e) = Inl e" "map_result f (Inr x) = Inr (f x)"
  by (simp_all add: map_result_def)

lemma for_each_cong_map:
  "(\<And>x. x \<in> set xs \<Longrightarrow> map_result g (f1 x) = map_result g (f2 x)) \<Longrightarrow>
   map_result (map g) (for_each f1 xs) = map_result (map g) (for_each f2 xs)"
proof (induction xs)
  case Nil
  then show ?case by simp
next
  case (Cons x xs)
  have hd: "map_result g (f1 x) = map_result g (f2 x)"
    by (rule Cons.prems) simp
  have tl: "map_result (map g) (for_each f1 xs) = map_result (map g) (for_each f2 xs)"
    by (rule Cons.IH) (simp add: Cons.prems)
  show ?case
    using hd tl
    by (cases "f1 x"; cases "f2 x"; cases "for_each f1 xs"; cases "for_each f2 xs") simp_all
qed

lemma dict_update_Nil: "dict_update d [] = d"
  by (simp add: dict_update_def)

lemma dict_update_Cons: "dict_update d (kv # xs) = dict_update (AList.update (fst kv) (snd kv) d) xs"
  by (simp add: dict_update_def)

lemma dict_update_append: "dict_update d (xs @ ys) = dict_update (dict_update d xs) ys"
  by (simp add: dict_update_def)

lemma drop_targets_update:
  "k \<in> set target_keys \<Longrightarrow> drop_targets (AList.update k v al) = drop_targets al"
  by (induction al) (auto simp: drop_targets_def)

lemma feature_row_keys:
  assumes "map row_keys t1 = map row_keys t2"
  shows "map_result drop_targets (feature_row h t1 q ts tr c d) =
         map_result drop_targets (feature_row h t2 q ts tr c d)"
proof -
  have "map row_keys (filter (\<lambda>r. Abbreviation r = d) t1) =
        map row_keys (filter (\<lambda>r. Abbreviation r = d) t2)"
  proof -
    have "\<And>t. map row_keys (filter (\<lambda>r. Abbreviation r = d) t) =
               filter (\<lambda>k. fst k = d) (map row_keys t)"
      by (simp add: filter_map o_def row_keys_def)
    then show ?thesis using assms by simp
  qed
  then consider
      (none) "filter (\<lambda>r. Abbreviation r = d) t1 = []" "filter (\<lambda>r. Abbreviation r = d) t2 = []"
    | (some) r1 o1 r2 o2 where "filter (\<lambda>r. Abbreviation r = d) t1 = r1 # o1"
        "filter (\<lambda>r. Abbreviation r = d) t2 = r2 # o2" "TeamName r1 = TeamName r2"
    by (cases "filter (\<lambda>r. Abbreviation r = d) t1"; cases "filter (\<lambda>r. Abbreviation r = d) t2")
       (auto simp: row_keys_def)
  then show ?thesis
  proof cases
    case none
    then show ?thesis by (simp add: feature_row_def)
  next
    case some
    then show ?thesis
      by (simp add: feature_row_def Let_def bind_err_def dict_update_Nil dict_update_Cons
          dict_update_append drop_targets_update target_keys_def split: sum.splits)
  qed
qed

lemma build_race_features_keys:
  assumes cols: "columns rr1 = columns rr2"
    and hist: "filter (before_target ts tr) (rows rr1) = filter (before_target ts tr) (rows rr2)"
    and keys: "map row_keys (filter (at_target ts tr) (rows rr1)) =
               map row_keys (filter (at_target ts tr) (rows rr2))"
  shows "map_result (map drop_targets) (build_race_features rr1 q ts tr) =
         map_result (map drop_targets) (build_race_features rr2 q ts tr)"
proof -
  let ?t1 = "filter (at_target ts tr) (rows rr1)"
  let ?t2 = "filter (at_target ts tr) (rows rr2)"
  have h: "rr1\<lparr>rows := filter (before_target ts tr) (rows rr1)\<rparr> =
           rr2\<lparr>rows := filter (before_target ts tr) (rows rr2)\<rparr>"
    using cols hist by simp
  have drivers: "map Abbreviation ?t1 = map Abbreviation ?t2"
  proof -
    have "map Abbreviation ?t1 = map fst (map row_keys ?t1)"
      by (simp add: row_keys_def o_def)
    also have "\<dots> = map fst (map row_keys ?t2)"
      using keys by simp
    also have "\<dots> = map Abbreviation ?t2"
      by (simp add: row_keys_def o_def)
    finally show ?thesis .
  qed
  show ?thesis
  proof (cases ?t1)
    case Nil
    then have "?t2 = []" using keys by simp
    with Nil show ?thesis by (simp add: build_race_features_def)
  next
    case (Cons f1 o1)
    then obtain f2 o2 where c2: "?t2 = f2 # o2" and gp: "GrandPrix f1 = GrandPrix f2"
      using keys by (cases ?t2) (auto simp: row_keys_def)
    have "map_result (map drop_targets)
            (for_each (feature_row (rr2\<lparr>rows := filter (before_target ts tr) (rows rr2)\<rparr>)
               ?t1 q ts tr (GrandPrix f2)) (unique (map Abbreviation ?t2))) =
          map_result (map drop_targets)
            (for_each (feature_row (rr2\<lparr>rows := filter (before_target ts tr) (rows rr2)\<rparr>)
               ?t2 q ts tr (GrandPrix f2)) (unique (map Abbreviation ?t2)))"
      by (rule for_each_cong_map) (rule feature_row_keys [OF keys])
    then show ?thesis
      using Cons c2 gp h drivers by (simp add: build_race_features_def Let_def)
  qed
qed

lemma build_race_features_later:
  assumes cols: "columns rr1 = columns rr2"
    and hist: "filter (before_target ts tr) (rows rr1) = filter (before_target ts tr) (rows rr2)"
    and target: "filter (at_target ts tr) (rows rr1) = filter (at_target ts tr) (rows rr2)"
  shows "build_race_features rr1 q ts tr = build_race_features rr2 q ts tr"
proof -
  have h: "rr1\<lparr>rows := filter (before_target ts tr) (rows rr1)\<rparr> =
           rr2\<lparr>rows := filter (before_target ts tr) (rows rr2)\<rparr>"
    using cols hist by simp
  show ?thesis
    unfolding build_race_features_def Let_def h target ..
qed

lemma default_when_no_history:
  assumes "has_column results ''Abbreviation''"
    and "as_of_date = None \<or> has_column results ''Date''"
    and "filter (\<lambda>r. Abbreviation r = driver_id \<and>
                       (case as_of_date of None \<Rightarrow> True | Some t \<Rightarrow> Date r < t))
            (rows results) = []"
  shows "compute_driver_features results driver_id as_of_date window =
           Inr [(''avg_finish_last_n'', Number 15),
                (''avg_grid_last_n'', Number 15),
                (''avg_points_last_n'', Number 0),
                (''wins_last_n'', Number 0),
                (''podiums_last_n'', Number 0),
                (''points_finishes_last_n'', Number 0),
                (''avg_positions_gained'', Number 0),
                (''dnf_rate'', Number (1 / 10)),
                (''career_races'', Number 0),
                (''career_wins'', Number 0),
                (''career_podiums'', Number 0),
                (''career_points'', Number 0),
                (''season_points'', Number 0),
                (''season_position'', Number 20)]"
proof -
  have "driver_history results driver_id as_of_date =
          filter (\<lambda>r. Abbreviation r = driver_id \<and>
                       (case as_of_date of None \<Rightarrow> True | Some t \<Rightarrow> Date r < t))
            (rows results)"
    by (cases as_of_date) (simp_all add: driver_history_def conj_commute)
  with assms(3) have "driver_history results driver_id as_of_date = []"
    by simp
  then show ?thesis
    using assms(1,2) by (auto simp: compute_driver_features_def default_driver_features_def)
qed

lemma has_column_rows: "has_column (df\<lparr>rows := x\<rparr>) = has_column df"
  by (simp add: has_column_def fun_eq_iff)

lemma driver_as_of:
  "compute_driver_features rs d (Some t) w =
   compute_driver_features (rs\<lparr>rows := filter (\<lambda>r. Date r < t) (rows rs)\<rparr>) d (Some t) w"
proof -
  have "driver_history (rs\<lparr>rows := filter (\<lambda>r. Date r < t) (rows rs)\<rparr>) d (Some t) =
        driver_history rs d (Some t)"
    by (auto simp: driver_history_def Let_def intro!: filter_cong)
  then show ?thesis
    unfolding compute_driver_features_def has_column_rows by simp
qed

lemma team_as_of:
  "compute_team_features rs tm (Some t) w =
   compute_team_features (rs\<lparr>rows := filter (\<lambda>r. Date r < t) (rows rs)\<rparr>) tm (Some t) w"
proof -
  have "team_history (rs\<lparr>rows := filter (\<lambda>r. Date r < t) (rows rs)\<rparr>) tm (Some t) =
        team_history rs tm (Some t)"
    by (auto simp: team_history_def Let_def intro!: filter_cong)
  then show ?thesis
    unfolding compute_team_features_def has_column_rows by simp
qed

lemma length_cumsum_from [simp]: "length (cumsum_from a bs) = length bs"
  by (induction bs arbitrary: a) simp_all

lemma cumsum_from_0: "bs \<noteq> [] \<Longrightarrow> cumsum_from a bs ! 0 = a + (if bs ! 0 then 1 else 0)"
  by (cases bs) simp_all

lemma cumsum_from_Suc:
  "Suc i < length bs \<Longrightarrow>
     cumsum_from a bs ! Suc i = cumsum_from a bs ! i + (if bs ! Suc i then 1 else 0)"
proof (induction bs arbitrary: a i)
  case Nil
  then show ?case by simp
next
  case (Cons b bs)
  show ?case
  proof (cases i)
    case 0
    with Cons.prems show ?thesis by (cases bs) simp_all
  next
    case (Suc j)
    with Cons.prems have "Suc j < length bs" by simp
    from Cons.IH [OF this] Suc show ?thesis by simp
  qed
qed

lemma cumsum_from_ge: "x \<in> set (cumsum_from a bs) \<Longrightarrow> a \<le> x"
proof (induction bs arbitrary: a)
  case Nil
  then show ?case by simp
next
  case (Cons b bs)
  from Cons.prems consider "x = a + (if b then 1 else 0)"
    | "x \<in> set (cumsum_from (a + (if b then 1 else 0)) bs)" by auto
  then show ?case
  proof cases
    case 1
    then show ?thesis by simp
  next
    case 2
    from Cons.IH [OF this] show ?thesis by (simp split: if_splits)
  qed
qed

lemma sorted_cumsum_from: "sorted (cumsum_from a bs)"
  by (induction bs arbitrary: a) (auto dest: cumsum_from_ge)

lemma length_shift [simp]: "length (shift xs) = length xs"
  by (simp add: shift_def)

lemma shift_0: "xs \<noteq> [] \<Longrightarrow> shift xs ! 0 = None"
  by (simp add: shift_def)

lemma shift_Suc: "Suc i < length xs \<Longrightarrow> shift xs ! Suc i = xs ! i"
  by (auto simp: shift_def nth_butlast)

lemma ne_cell_iff: "ne_cell a b = (a = None \<or> b = None \<or> a \<noteq> b)"
  by (cases a; cases b) simp_all

lemma length_cumcount_from [simp]: "length (cumcount_from seen xs) = length xs"
  by (induction xs arbitrary: seen) simp_all

lemma cumcount_from_nth:
  "i < length xs \<Longrightarrow>
     cumcount_from seen xs ! i = count_list seen (xs ! i) + count_list (take i xs) (xs ! i)"
proof (induction xs arbitrary: seen i)
  case Nil
  then show ?case by simp
next
  case (Cons x xs)
  show ?case
  proof (cases i)
    case 0
    then show ?thesis by simp
  next
    case (Suc j)
    with Cons.prems have "j < length xs" by simp
    from Cons.IH [OF this, of "x # seen"] Suc show ?thesis by simp
  qed
qed

lemma cumcount_nth: "i < length xs \<Longrightarrow> cumcount xs ! i = count_list (take i xs) (xs ! i)"
  by (simp add: cumcount_def cumcount_from_nth)

lemma cumcount_Suc_same:
  assumes "Suc i < length xs" and "xs ! Suc i = xs ! i"
  shows "cumcount xs ! Suc i = cumcount xs ! i + 1"
proof -
  have "take (Suc i) xs = take i xs @ [xs ! i]"
    using assms(1) by (simp add: take_Suc_conv_app_nth)
  then show ?thesis
    using assms by (simp add: cumcount_nth)
qed

lemma cumcount_Suc_new:
  fixes xs :: "int list"
  assumes "Suc i < length xs" and "xs ! Suc i \<noteq> xs ! i" and "sorted xs"
  shows "cumcount xs ! Suc i = 0"
proof -
  have "xs ! i \<le> xs ! Suc i"
    using assms(1) sorted_nth_mono [OF assms(3), of i "Suc i"] by simp
  with assms(2) have lt: "xs ! i < xs ! Suc i" by simp
  have "xs ! Suc i \<notin> set (take (Suc i) xs)"
  proof
    assume "xs ! Suc i \<in> set (take (Suc i) xs)"
    then obtain j where j: "j < Suc i" "xs ! j = xs ! Suc i"
      using assms(1) by (auto simp: in_set_conv_nth)
    then have "xs ! j \<le> xs ! i"
      using assms(1) sorted_nth_mono [OF assms(3), of j i] by simp
    with j lt show False by simp
  qed
  then show ?thesis
    using assms(1) by (simp add: cumcount_nth)
qed

lemma length_stint_numbers [simp]: "length (stint_numbers laps L) = length L"
  by (simp add: stint_numbers_def cumsum_def)

lemma sorted_stint_numbers: "sorted (stint_numbers laps L)"
proof (cases "has_column laps ''Compound''")
  case True
  then show ?thesis by (simp add: stint_numbers_def cumsum_def sorted_cumsum_from)
next
  case False
  have "sorted (map (\<lambda>r. 1::int) L)" by (induction L) simp_all
  with False show ?thesis by (simp add: stint_numbers_def)
qed

lemma stint_numbers_0:
  "L \<noteq> [] \<Longrightarrow> stint_numbers laps L ! 0 = 1"
  by (cases L) (simp_all add: stint_numbers_def cumsum_def shift_def ne_cell_iff)

lemma stint_numbers_Suc:
  assumes "has_column laps ''Compound''" and "Suc i < length L"
  shows "stint_numbers laps L ! Suc i =
           stint_numbers laps L ! i +
             (if Compound (L ! Suc i) = None \<or> Compound (L ! i) = None
                 \<or> Compound (L ! Suc i) \<noteq> Compound (L ! i) then 1 else 0)"
  using assms
  by (simp add: stint_numbers_def cumsum_def cumsum_from_Suc shift_Suc ne_cell_iff)

lemma stint_numbers_plain:
  "\<not> has_column laps ''Compound'' \<Longrightarrow> i < length L \<Longrightarrow> stint_numbers laps L ! i = 1"
  by (simp add: stint_numbers_def)

lemma driver_stint_laps_length:
  "length (driver_stint_laps laps d) =
   length (sort_key LapNumber (filter (\<lambda>r. Driver r = d) (rows laps)))"
  by (simp add: driver_stint_laps_def Let_def cumcount_def)

lemma driver_stint_laps_nth:
  assumes "i < length L" and "L = sort_key LapNumber (filter (\<lambda>r. Driver r = d) (rows laps))"
  shows "lap_row.truncate (driver_stint_laps laps d ! i) = L ! i"
    and "StintNumber (driver_stint_laps laps d ! i) = stint_numbers laps L ! i"
    and "TireAge (driver_stint_laps laps d ! i) = int (cumcount (stint_numbers laps L) ! i) + 1"
  using assms
  by (simp_all add: driver_stint_laps_def Let_def cumcount_def lap_row.truncate_def
      lap_row.extend_def stint_lap.fields_def)

lemmas tire_defs =
  compute_tire_features_def stint_feature_rows_def driver_stint_laps_def stint_numbers_def
  groupby_def polyfit1_def has_column_def cumsum_def cumcount_def shift_def
  lap_row.extend_def stint_lap.fields_def lap_columns_def mk_lap_def Let_def

text \<open>Stint segmentation where every lap has a compound: the first lap opens stint 1, the
  stint number goes up by one exactly at a lap whose compound differs from the one of the
  lap before, and the tire age is the position of the lap within its stint. Without a
  \<^verbatim>\<open>Compound\<close> column every lap is in stint 1.\<close>

lemma stint_segmentation:
  assumes L: "L = sort_key LapNumber (filter (\<lambda>r. Driver r = d) (rows laps))"
    and seg: "seg = driver_stint_laps laps d"
  shows "length seg = length L"
    and "L \<noteq> [] \<Longrightarrow> StintNumber (seg ! 0) = 1 \<and> TireAge (seg ! 0) = 1"
    and "has_column laps ''Compound'' \<Longrightarrow> Suc i < length L \<Longrightarrow>
           StintNumber (seg ! Suc i) =
             StintNumber (seg ! i) +
               (if Compound (L ! Suc i) = None \<or> Compound (L ! i) = None
                   \<or> Compound (L ! Suc i) \<noteq> Compound (L ! i) then 1 else 0)"
    and "\<not> has_column laps ''Compound'' \<Longrightarrow> i < length L \<Longrightarrow> StintNumber (seg ! i) = 1"
    and "Suc i < length L \<Longrightarrow>
           TireAge (seg ! Suc i) =
             (if StintNumber (seg ! Suc i) = StintNumber (seg ! i) then TireAge (seg ! i) + 1
              else 1)"
proof -
  show "length seg = length L"
    unfolding L seg by (rule driver_stint_laps_length)
  show "StintNumber (seg ! 0) = 1 \<and> TireAge (seg ! 0) = 1" if "L \<noteq> []"
  proof -
    have 0: "0 < length L"
      using that by simp
    have "cumcount (stint_numbers laps L) ! 0 = 0"
      using that by (simp add: cumcount_nth)
    then show ?thesis
      unfolding seg
      using that driver_stint_laps_nth(2,3) [OF 0 L] by (simp add: stint_numbers_0)
  qed
  show "StintNumber (seg ! Suc i) =
             StintNumber (seg ! i) +
               (if Compound (L ! Suc i) = None \<or> Compound (L ! i) = None
                   \<or> Compound (L ! Suc i) \<noteq> Compound (L ! i) then 1 else 0)"
    if "has_column laps ''Compound''" "Suc i < length L"
  proof -
    have i: "i < length L"
      using that(2) by simp
    show ?thesis
      unfolding seg driver_stint_laps_nth(2) [OF that(2) L] driver_stint_laps_nth(2) [OF i L]
      using that by (rule stint_numbers_Suc)
  qed
  show "StintNumber (seg ! i) = 1" if "\<not> has_column laps ''Compound''" "i < length L"
    unfolding seg driver_stint_laps_nth(2) [OF that(2) L]
    using that by (rule stint_numbers_plain)
  show "TireAge (seg ! Suc i) =
             (if StintNumber (seg ! Suc i) = StintNumber (seg ! i) then TireAge (seg ! i) + 1
              else 1)"
    if "Suc i < length L"
  proof -
    have i: "i < length L"
      using that by simp
    have len: "Suc i < length (stint_numbers laps L)"
      using that by simp
    show ?thesis
      unfolding seg driver_stint_laps_nth(2,3) [OF that L] driver_stint_laps_nth(2,3) [OF i L]
      using cumcount_Suc_same [OF len] cumcount_Suc_new [OF len _ sorted_stint_numbers]
      by auto
  qed
qed

text \<open>The example of the specification: the compounds A, A, A, B, B, A.\<close>

lemma stint_example:
  "map StintNumber (driver_stint_laps ex_stints ''VER'') = [1, 1, 1, 2, 2, 3]"
  "map TireAge (driver_stint_laps ex_stints ''VER'') = [1, 2, 3, 1, 2, 1]"
  by (simp_all add: tire_defs ex_stints_def)




















lemma length_lap_times [simp]: "length (lap_times rs) = length rs"
  by (simp add: lap_times_def)

lemma length_lap_ages [simp]: "length (lap_ages rs) = length rs"
  by (simp add: lap_ages_def)



lemmas scaler_defs =
  fit_scaler_def transform_scaler_def df_columns_def n_rows_def select_filled_def column_of_def
  fillna0_def scaler_fit_transform_def scaler_fit_def scaler_transform_def check_array_def
  is_object_def is_infinity_def float_of_def bind_err_def column_mean_def column_var_def
  column_scale_def scale_column_def assign_columns_def Let_def

lemma bind_err_Inr_iff:
  "bind_err m f = Inr y \<longleftrightarrow> (\<exists>x. m = Inr x \<and> f x = Inr y)"
  by (cases m) (simp_all add: bind_err_def)

lemma float_of_fillna0: "map float_of (fillna0 col) = map zero_filled col"
  by (induction col) (simp_all add: fillna0_def float_of_def zero_filled_def split: cell.splits)

lemma accepted_column:
  "list_all finite_or_missing col \<longleftrightarrow>
     \<not> list_ex is_object (fillna0 col) \<and> \<not> list_ex is_infinity (fillna0 col)"
  by (induction col)
     (auto simp: fillna0_def finite_or_missing_def is_object_def is_infinity_def
        split: cell.splits)

lemma accepted_iff:
  "accepted df cs \<longleftrightarrow>
     \<not> list_ex is_object (concat (select_filled df cs))
     \<and> \<not> list_ex is_infinity (concat (select_filled df cs))"
  by (induction cs) (auto simp: accepted_def select_filled_def accepted_column)

lemma check_array_accepted:
  "accepted df cs \<Longrightarrow>
   check_array k (select_filled df cs) =
     (if k = 0 then Inl (ValueError ''Found array with 0 sample(s)'')
      else if cs = [] then Inl (ValueError ''Found array with 0 feature(s)'')
      else Inr (map (\<lambda>c. map zero_filled (column_of df c)) cs))"
  by (simp add: check_array_def accepted_iff)
     (simp add: select_filled_def float_of_fillna0 o_def)

lemma check_array_refused:
  "\<not> accepted df cs \<Longrightarrow> \<exists>msg. check_array k (select_filled df cs) = Inl (ValueError msg)"
  by (auto simp: check_array_def accepted_iff)

lemma check_array_Inr:
  assumes "check_array k (select_filled df cs) = Inr A"
  shows "accepted df cs \<and> 0 < k \<and> A = map (\<lambda>c. map zero_filled (column_of df c)) cs"
proof (cases "accepted df cs")
  case True
  then show ?thesis
    using assms by (auto simp: check_array_accepted split: if_splits)
next
  case False
  from check_array_refused [OF this, of k] assms show ?thesis
    by auto
qed

lemma zip_scaler:
  "zip (map h xs) (zip (map f xs) (map g xs)) = map (\<lambda>x. (h x, f x, g x)) xs"
  by (induction xs) simp_all

text \<open>The column that the fitted scaler puts in the place of a column.\<close>

lemma scaled_column:
  "map Num (scale_column (map zero_filled col, m, s)) =
   map (\<lambda>x. Num ((zero_filled x - m) / s)) col"
  by (simp add: scale_column_def o_def)

lemma fit_scaler_run:
  assumes ne: "filter (\<lambda>c. c \<in> set (df_columns df)) cols \<noteq> []"
  shows "fit_scaler reg df cols n =
           (if accepted df (filter (\<lambda>c. c \<in> set (df_columns df)) cols)
            then if n_rows df = 0 then Inl (ValueError ''Found array with 0 sample(s)'')
                 else Inr (assign_columns df (filter (\<lambda>c. c \<in> set (df_columns df)) cols)
                             (map (\<lambda>c. scale_column
                                          (map zero_filled (column_of df c),
                                           column_mean (map zero_filled (column_of df c)),
                                           column_scale (map zero_filled (column_of df c))))
                                (filter (\<lambda>c. c \<in> set (df_columns df)) cols)),
                           reg(n \<mapsto>
                             (\<lparr>means = map (\<lambda>c. column_mean (map zero_filled (column_of df c)))
                                         (filter (\<lambda>c. c \<in> set (df_columns df)) cols),
                               scales = map (\<lambda>c. column_scale (map zero_filled (column_of df c)))
                                          (filter (\<lambda>c. c \<in> set (df_columns df)) cols)\<rparr>,
                              filter (\<lambda>c. c \<in> set (df_columns df)) cols)))
            else fit_scaler reg df cols n)"
proof (cases "accepted df (filter (\<lambda>c. c \<in> set (df_columns df)) cols)")
  case False
  then show ?thesis by simp
next
  case True
  show ?thesis
    using ne True
    by (simp add: fit_scaler_def Let_def scaler_fit_transform_def scaler_fit_def
        scaler_transform_def bind_err_def check_array_accepted zip_scaler o_def)
qed

lemma fit_scaler_refused:
  assumes ne: "filter (\<lambda>c. c \<in> set (df_columns df)) cols \<noteq> []"
    and no: "\<not> accepted df (filter (\<lambda>c. c \<in> set (df_columns df)) cols)"
  shows "\<exists>msg. fit_scaler reg df cols n = Inl (ValueError msg)"
proof -
  obtain msg where "check_array (n_rows df)
                      (select_filled df (filter (\<lambda>c. c \<in> set (df_columns df)) cols)) =
                    Inl (ValueError msg)"
    using check_array_refused [OF no] by blast
  then show ?thesis
    using ne
    by (simp add: fit_scaler_def Let_def scaler_fit_transform_def scaler_fit_def bind_err_def)
qed

lemma fit_scaler_Inr:
  assumes fit: "fit_scaler reg df cols n = Inr (out, reg')"
    and ne: "filter (\<lambda>c. c \<in> set (df_columns df)) cols \<noteq> []"
  shows "accepted df (filter (\<lambda>c. c \<in> set (df_columns df)) cols) \<and> 0 < n_rows df"
proof -
  have acc: "accepted df (filter (\<lambda>c. c \<in> set (df_columns df)) cols)"
  proof (rule ccontr)
    assume "\<not> accepted df (filter (\<lambda>c. c \<in> set (df_columns df)) cols)"
    from fit_scaler_refused [OF ne this, of reg n] fit show False by auto
  qed
  have "0 < n_rows df"
  proof (rule ccontr)
    assume "\<not> 0 < n_rows df"
    then have "n_rows df = 0" by simp
    with fit_scaler_run [OF ne, of reg n] acc fit show False by simp
  qed
  with acc show ?thesis by simp
qed

lemma map_of_assign_columns:
  "map_of (assign_columns df cs Y) = (map_of df)(cs [\<mapsto>] map (map Num) Y)"
proof (induction cs arbitrary: df Y)
  case Nil
  then show ?case by (simp add: assign_columns_def)
next
  case (Cons c cs)
  show ?case
  proof (cases Y)
    case Nil
    then show ?thesis by (simp add: assign_columns_def)
  next
    case (Cons y ys)
    have "map_of (assign_columns (AList.update c (map Num y) df) cs ys) =
          (map_of (AList.update c (map Num y) df))(cs [\<mapsto>] map (map Num) ys)"
      by (rule Cons.IH)
    then show ?thesis
      using Cons by (simp add: assign_columns_def update_conv')
  qed
qed

lemma columns_assign_columns:
  "set cs \<subseteq> set (df_columns df) \<Longrightarrow> df_columns (assign_columns df cs Y) = df_columns df"
proof (induction cs arbitrary: df Y)
  case Nil
  then show ?case by (simp add: assign_columns_def)
next
  case (Cons c cs)
  show ?case
  proof (cases Y)
    case Nil
    then show ?thesis by (simp add: assign_columns_def)
  next
    case (Cons y ys)
    have keep: "df_columns (AList.update c (map Num y) df) = df_columns df"
      using Cons.prems by (simp add: df_columns_def update_keys)
    have "df_columns (assign_columns (AList.update c (map Num y) df) cs ys) =
          df_columns (AList.update c (map Num y) df)"
      by (rule Cons.IH) (use Cons.prems keep in simp)
    then show ?thesis
      using Cons keep by (simp add: assign_columns_def)
  qed
qed

lemma map_upds_map:
  "(m(xs [\<mapsto>] map g xs)) x = (if x \<in> set xs then Some (g x) else m x)"
  by (induction xs arbitrary: m) (auto simp: map_upds_Cons)

lemma lookup_error_iff:
  "transform_scaler reg df n = Inl (ScalerNotFound n) \<longleftrightarrow> reg n = None"
  by (auto simp: transform_scaler_def Let_def bind_err_def scaler_transform_def check_array_def
      split: option.splits sum.splits if_splits)

text \<open>Rolling windows, and the groups of a sorted table.\<close>

lemma rolling_from_eq:
  "rolling_from w buf xs =
   map (\<lambda>i. drop (length buf + Suc i - w) (buf @ take (Suc i) xs)) [0..<length xs]"
proof (induction xs arbitrary: buf)
  case Nil
  then show ?case by simp
next
  case (Cons x xs)
  let ?b = "drop (Suc (length buf) - w) (buf @ [x])"
  have step: "drop (length ?b + Suc i - w) (?b @ take (Suc i) xs) =
              drop (length buf + Suc (Suc i) - w) (buf @ take (Suc (Suc i)) (x # xs))" for i
  proof -
    have "drop (Suc (length buf) - w) ((buf @ [x]) @ take (Suc i) xs) =
          ?b @ drop (Suc (length buf) - w - length (buf @ [x])) (take (Suc i) xs)"
      by (rule drop_append)
    then have "?b @ take (Suc i) xs = drop (Suc (length buf) - w) (buf @ x # take (Suc i) xs)"
      by simp
    then have "drop (length ?b + Suc i - w) (?b @ take (Suc i) xs) =
               drop (length ?b + Suc i - w + (Suc (length buf) - w)) (buf @ x # take (Suc i) xs)"
      by (simp only: drop_drop)
    moreover have "length ?b + Suc i - w + (Suc (length buf) - w) = length buf + Suc (Suc i) - w"
      by auto
    ultimately show ?thesis by simp
  qed
  have "[0..<Suc (length xs)] = 0 # [Suc 0..<Suc (length xs)]"
    by (rule upt_conv_Cons) simp
  then have upt: "[0..<length (x # xs)] = 0 # map Suc [0..<length xs]"
    by (simp only: map_Suc_upt list.size(4) Suc_eq_plus1 [symmetric]) simp
  let ?f = "\<lambda>i. drop (length buf + Suc i - w) (buf @ take (Suc i) (x # xs))"
  have "rolling_from w buf (x # xs) = ?b # rolling_from w ?b xs"
    by (simp add: Let_def)
  also have "rolling_from w ?b xs =
             map (\<lambda>i. drop (length ?b + Suc i - w) (?b @ take (Suc i) xs)) [0..<length xs]"
    by (rule Cons.IH)
  also have "\<dots> = map (\<lambda>i. ?f (Suc i)) [0..<length xs]"
    by (simp only: step)
  also have "?b = ?f 0"
    by simp
  finally have "rolling_from w buf (x # xs) = ?f 0 # map (\<lambda>i. ?f (Suc i)) [0..<length xs]" .
  also have "\<dots> = map ?f (0 # map Suc [0..<length xs])"
    by (simp only: list.map map_map o_def)
  finally show ?case
    by (simp only: upt)
qed



lemma length_rolling [simp]: "length (rolling w xs) = length xs"
  by (simp add: rolling_def rolling_from_eq)

lemma length_group_stats [simp]: "length (group_stats results w x) = length x"
  by (simp add: group_stats_def)



















section \<open>Claims\<close>

text \<open>
  \<^bold>\<open>C1\<close> (no leakage), as amended. The claim says that altering or removing any record at
  or after the target leaves every feature unchanged; that fails for the records of the
  target round itself, which name the drivers, the team of each driver and the event for
  which the features are computed (see \<open>C1_target_record_counterexample\<close>). What holds:
  the identifying keys and the four feature groups of every row depend only on the records
  strictly before the target (season first, then round), on the driver, team and event
  names of the target round's records and on the qualifying table; every other field of
  the target round's records may be altered freely. The records strictly after the target
  may be removed without changing the result at all. An explicit \<open>as_of_date\<close> keeps only
  the records dated strictly before it, for the driver and for the team features.
\<close>

theorem C1_no_leakage:
  assumes "columns rr1 = columns rr2"
    and "filter (before_target ts tr) (rows rr1) = filter (before_target ts tr) (rows rr2)"
    and "map row_keys (filter (at_target ts tr) (rows rr1)) =
         map row_keys (filter (at_target ts tr) (rows rr2))"
  shows "map_result (map drop_targets) (build_race_features rr1 q ts tr) =
         map_result (map drop_targets) (build_race_features rr2 q ts tr)
       \<and> build_race_features rr1 q ts tr =
         build_race_features
           (rr1\<lparr>rows := filter (\<lambda>r. before_target ts tr r \<or> at_target ts tr r) (rows rr1)\<rparr>)
           q ts tr
       \<and> compute_driver_features rr1 d (Some t) w =
         compute_driver_features (rr1\<lparr>rows := filter (\<lambda>r. Date r < t) (rows rr1)\<rparr>) d (Some t) w
       \<and> compute_team_features rr1 tm (Some t) w =
         compute_team_features (rr1\<lparr>rows := filter (\<lambda>r. Date r < t) (rows rr1)\<rparr>) tm (Some t) w"
proof (intro conjI)
  show "map_result (map drop_targets) (build_race_features rr1 q ts tr) =
        map_result (map drop_targets) (build_race_features rr2 q ts tr)"
    using assms by (rule build_race_features_keys)
next
  let ?cut = "rr1\<lparr>rows := filter (\<lambda>r. before_target ts tr r \<or> at_target ts tr r) (rows rr1)\<rparr>"
  have "filter (before_target ts tr) (rows rr1) = filter (before_target ts tr) (rows ?cut)"
    by (auto intro!: filter_cong)
  moreover have "filter (at_target ts tr) (rows rr1) = filter (at_target ts tr) (rows ?cut)"
    by (auto intro!: filter_cong)
  moreover have "columns rr1 = columns ?cut"
    by simp
  ultimately show "build_race_features rr1 q ts tr = build_race_features ?cut q ts tr"
    by (intro build_race_features_later)
next
  show "compute_driver_features rr1 d (Some t) w =
        compute_driver_features (rr1\<lparr>rows := filter (\<lambda>r. Date r < t) (rows rr1)\<rparr>) d (Some t) w"
    by (rule driver_as_of)
next
  show "compute_team_features rr1 tm (Some t) w =
        compute_team_features (rr1\<lparr>rows := filter (\<lambda>r. Date r < t) (rows rr1)\<rparr>) tm (Some t) w"
    by (rule team_as_of)
qed

theorem C1_no_leakage_witness:
  "map_result (map drop_targets) (build_race_features ex_race ex_quali_ver 2023 2) =
   map_result (map drop_targets) (build_race_features ex_race_later ex_quali_ver 2023 2)
 \<and> build_race_features ex_race ex_quali_ver 2023 2 =
   build_race_features
     (ex_race\<lparr>rows := filter (\<lambda>r. before_target 2023 2 r \<or> at_target 2023 2 r) (rows ex_race)\<rparr>)
     ex_quali_ver 2023 2
 \<and> compute_driver_features ex_race ''VER'' (Some 15) 5 =
   compute_driver_features (ex_race\<lparr>rows := filter (\<lambda>r. Date r < 15) (rows ex_race)\<rparr>)
     ''VER'' (Some 15) 5
 \<and> compute_team_features ex_race ''Mercedes'' (Some 15) 5 =
   compute_team_features (ex_race\<lparr>rows := filter (\<lambda>r. Date r < 15) (rows ex_race)\<rparr>)
     ''Mercedes'' (Some 15) 5"
proof -
  have cols: "columns ex_race = columns ex_race_later"
    by (simp add: example_defs)
  have hist: "filter (before_target 2023 2) (rows ex_race) =
              filter (before_target 2023 2) (rows ex_race_later)"
    by (simp add: example_defs before_target_def)
  have keys: "map row_keys (filter (at_target 2023 2) (rows ex_race)) =
              map row_keys (filter (at_target 2023 2) (rows ex_race_later))"
    by (simp add: example_defs at_target_def row_keys_def)
  show ?thesis
    by (rule C1_no_leakage [OF cols hist keys])
qed

text \<open>The claim as stated fails: \<open>ex_race_team\<close> differs from \<open>ex_race\<close> in one record of
  the target round (the team of VER in round 2 of 2023), the records before the target are
  the same, and the team feature \<open>team_avg_points_last_n\<close> of VER's row changes from 25 to
  10.\<close>

theorem C1_target_record_counterexample:
  "filter (before_target 2023 2) (rows ex_race) = filter (before_target 2023 2) (rows ex_race_team)
 \<and> map_result (map (\<lambda>row. map_of row ''team_avg_points_last_n''))
     (build_race_features ex_race ex_quali_ver 2023 2)
   = Inr [Some (Number 25), Some (Number 10)]
 \<and> map_result (map (\<lambda>row. map_of row ''team_avg_points_last_n''))
     (build_race_features ex_race_team ex_quali_ver 2023 2)
   = Inr [Some (Number 10), Some (Number 10)]"
proof (intro conjI)
  show "filter (before_target 2023 2) (rows ex_race) =
        filter (before_target 2023 2) (rows ex_race_team)"
    by (simp add: example_defs before_target_def)
  show "map_result (map (\<lambda>row. map_of row ''team_avg_points_last_n''))
          (build_race_features ex_race ex_quali_ver 2023 2)
        = Inr [Some (Number 25), Some (Number 10)]"
    by (simp add: feature_defs example_defs)
  show "map_result (map (\<lambda>row. map_of row ''team_avg_points_last_n''))
          (build_race_features ex_race_team ex_quali_ver 2023 2)
        = Inr [Some (Number 10), Some (Number 10)]"
    by (simp add: feature_defs example_defs)
qed


text \<open>
  \<^bold>\<open>C2\<close> (default driver feature vector). The claim does not hold of the code. On the
  table without columns and without rows, which is what a failed load returns, the
  history of every driver has no row and the claim promises the default mapping and no
  exception; \<open>compute_driver_features\<close> reads the column \<open>Abbreviation\<close> before it tests
  whether the history is empty, and raises \<open>KeyError\<close>. On a table that has the columns it
  reads, the default mapping is returned (lemma \<open>default_when_no_history\<close>).
\<close>

theorem C2_no_columns_raises:
  "filter (\<lambda>r. Abbreviation r = ''VER'') (rows ex_no_columns) = []
 \<and> compute_driver_features ex_no_columns ''VER'' None 5 = Inl (KeyError ''Abbreviation'')
 \<and> compute_driver_features ex_no_columns ''VER'' (Some 15) 5 = Inl (KeyError ''Abbreviation'')"
  by (simp add: compute_driver_features_def has_column_def ex_no_columns_def)

text \<open>
  \<^bold>\<open>C6\<close> (feature-table column invariant). The claim does not hold of the code: the session
  keys \<open>grid_position\<close> and \<open>quali_gap_to_pole\<close> are set only for a driver who has a row in
  the qualifying table. With VER and HAM in the target race and only VER in the qualifying
  table, the row of VER carries both keys and the row of HAM carries neither.
\<close>

theorem C6_session_keys_missing:
  "map_result
     (map (\<lambda>row. filter (\<lambda>k. k = ''grid_position'' \<or> k = ''quali_gap_to_pole'') (dict_keys row)))
     (build_race_features ex_race ex_quali_ver 2023 2)
   = Inr [[''grid_position'', ''quali_gap_to_pole''], []]"
  by (simp add: feature_defs example_defs map_result_def)

text \<open>
  \<^bold>\<open>C9\<close> (gap-to-pole default). The claim does not hold of the code: when the qualifying
  table has a \<open>Q3\<close> column and no row with position 1, so that the pole sitter's time is
  missing, reading the pole time raises \<open>IndexError\<close> where the claim promises the default
  gap 1.0 and no exception.
\<close>

theorem C9_missing_pole_raises:
  "compute_session_features ex_quali_no_pole None (Some ''VER'') = Inl IndexError"
  by (simp add: feature_defs example_defs)



text \<open>
  \<^bold>\<open>C4\<close> (stint segmentation). The claim does not hold of the code. Three consecutive laps
  of one driver have a \<open>Compound\<close> cell that is missing: the compound does not differ from
  one lap to the next, and the claim puts the three laps in stint 1 with the ages 1, 2, 3.
  The comparison \<open>!=\<close> of pandas holds whenever one of the two cells is missing, so the
  code opens a new stint at every such lap: the stint numbers are 1, 2, 3 and every age is
  1, and the three laps, which all have a valid lap time, give no row of stint features.
  Where every lap has a compound the claim holds, and so does its example (lemmas
  \<open>stint_segmentation\<close> and \<open>stint_example\<close>).
\<close>

theorem C4_missing_compound_splits_stints:
  "map Compound (rows ex_missing_compound) = [None, None, None]
 \<and> map StintNumber (driver_stint_laps ex_missing_compound ''VER'') = [1, 2, 3]
 \<and> map TireAge (driver_stint_laps ex_missing_compound ''VER'') = [1, 1, 1]
 \<and> compute_tire_features ex_missing_compound ''VER'' = Inr []"
  by (simp add: tire_defs ex_missing_compound_def)



text \<open>
  \<^bold>\<open>C7\<close> (scaler round trip), as amended. The claim fails when none of the requested
  columns is in the table: \<open>fit_scaler\<close> then returns the table as it is and registers
  nothing, and \<open>transform_scaler\<close> with that name raises the lookup error, or applies a
  scaler that an earlier call had registered under the name (see
  \<open>C7_no_column_counterexample\<close>). What holds: whenever \<open>fit_scaler\<close> returns and at least
  one requested column is in the table, \<open>transform_scaler\<close> with that name on the fit-time
  table returns the very table \<open>fit_scaler\<close> returned. That table has the columns of the
  input; a column that was not requested is as it was; in a requested column of the table
  every cell \<open>x\<close> has become \<open>(x0 - m) / s\<close>, where \<open>x0\<close> is \<open>x\<close> with a missing cell read
  as zero and \<open>m\<close> and \<open>s\<close> are the mean and the scale of the zero-filled column.
\<close>

theorem C7_round_trip:
  assumes fit: "fit_scaler reg df cols n = Inr (out, reg')"
    and ne: "filter (\<lambda>c. c \<in> set (df_columns df)) cols \<noteq> []"
  shows "transform_scaler reg' df n = Inr out
       \<and> df_columns out = df_columns df
       \<and> (\<forall>c. c \<notin> set cols \<longrightarrow> map_of out c = map_of df c)
       \<and> (\<forall>c col. c \<in> set cols \<and> map_of df c = Some col \<longrightarrow>
             map_of out c =
               Some (map (\<lambda>x. Num ((zero_filled x - column_mean (map zero_filled col))
                                   / column_scale (map zero_filled col))) col))"
proof -
  let ?valid = "filter (\<lambda>c. c \<in> set (df_columns df)) cols"
  let ?g = "\<lambda>c. scale_column (map zero_filled (column_of df c),
                               column_mean (map zero_filled (column_of df c)),
                               column_scale (map zero_filled (column_of df c)))"
  let ?sc = "\<lparr>means = map (\<lambda>c. column_mean (map zero_filled (column_of df c))) ?valid,
              scales = map (\<lambda>c. column_scale (map zero_filled (column_of df c))) ?valid\<rparr>"
  have acc: "accepted df ?valid" and rows: "0 < n_rows df"
    using fit_scaler_Inr [OF fit ne] by simp_all
  have "fit_scaler reg df cols n =
          Inr (assign_columns df ?valid (map ?g ?valid), reg(n \<mapsto> (?sc, ?valid)))"
    using fit_scaler_run [OF ne, of reg n] acc rows by simp
  with fit have out: "out = assign_columns df ?valid (map ?g ?valid)"
    and reg': "reg' = reg(n \<mapsto> (?sc, ?valid))"
    by simp_all
  have again: "filter (\<lambda>c. c \<in> set (df_columns df)) ?valid = ?valid"
    by simp
  have trip: "transform_scaler reg' df n = Inr out"
    unfolding reg' out using acc rows ne
    by (simp add: transform_scaler_def Let_def scaler_transform_def bind_err_def
        check_array_accepted zip_scaler o_def)
  have keys: "df_columns out = df_columns df"
    unfolding out by (rule columns_assign_columns) auto
  have lookup: "map_of out c = (if c \<in> set ?valid then Some (map Num (?g c)) else map_of df c)"
    for c
  proof -
    have "map (map Num) (map ?g ?valid) = map (\<lambda>c. map Num (?g c)) ?valid"
      by simp
    then show ?thesis
      unfolding out map_of_assign_columns
      using map_upds_map [of "map_of df" ?valid "\<lambda>c. map Num (?g c)" c] by (simp add: o_def)
  qed
  have other: "map_of out c = map_of df c" if "c \<notin> set cols" for c
    using that by (simp add: lookup)
  have scaled: "map_of out c =
                  Some (map (\<lambda>x. Num ((zero_filled x - column_mean (map zero_filled col))
                                      / column_scale (map zero_filled col))) col)"
    if c: "c \<in> set cols" and col: "map_of df c = Some col" for c col
  proof -
    have "(c, col) \<in> set df"
      using col by (rule map_of_SomeD)
    then have "c \<in> set (df_columns df)"
      by (force simp: df_columns_def)
    with c have "c \<in> set ?valid"
      by simp
    moreover have "column_of df c = col"
      using col by (simp add: column_of_def)
    ultimately show ?thesis
      by (simp add: lookup scaled_column)
  qed
  show ?thesis
    using trip keys other scaled by blast
qed

theorem C7_round_trip_witness:
  "transform_scaler ex_registry ex_df ''n'' =
     Inr [(''a'', [Num (- 1), Num 1]), (''b'', [Num 5, Missing]), (''c'', [Num 7, Num 7])]
 \<and> df_columns [(''a'', [Num (- 1), Num 1]), (''b'', [Num 5, Missing]), (''c'', [Num 7, Num 7])] =
     df_columns ex_df
 \<and> map_of [(''a'', [Num (- 1), Num 1]), (''b'', [Num 5, Missing]), (''c'', [Num 7, Num 7])] ''b'' =
     map_of ex_df ''b''
 \<and> map_of [(''a'', [Num (- 1), Num 1]), (''b'', [Num 5, Missing]), (''c'', [Num 7, Num 7])] ''a'' =
     Some (map (\<lambda>x. Num ((zero_filled x - column_mean (map zero_filled [Num 1, Num 3]))
                         / column_scale (map zero_filled [Num 1, Num 3]))) [Num 1, Num 3])"
proof -
  let ?out = "[(''a'', [Num (- 1), Num 1]), (''b'', [Num 5, Missing]), (''c'', [Num 7, Num 7])]"
  have fit: "fit_scaler Map.empty ex_df [''a'', ''zz''] ''n'' = Inr (?out, ex_registry)"
    by (simp add: scaler_defs zero_filled_def ex_df_def ex_registry_def)
  have valid: "filter (\<lambda>c. c \<in> set (df_columns ex_df)) [''a'', ''zz''] \<noteq> []"
    by (simp add: ex_df_def df_columns_def)
  note main = C7_round_trip [OF fit valid]
  have trip: "transform_scaler ex_registry ex_df ''n'' = Inr ?out"
    using main by (rule conjunct1)
  have keys: "df_columns ?out = df_columns ex_df"
    using main by blast
  have "\<forall>c. c \<notin> set [''a'', ''zz''] \<longrightarrow> map_of ?out c = map_of ex_df c"
    using main by blast
  then have "''b'' \<notin> set [''a'', ''zz''] \<longrightarrow> map_of ?out ''b'' = map_of ex_df ''b''"
    by (rule spec)
  then have other: "map_of ?out ''b'' = map_of ex_df ''b''"
    by simp
  have "\<forall>c col. c \<in> set [''a'', ''zz''] \<and> map_of ex_df c = Some col \<longrightarrow>
          map_of ?out c =
            Some (map (\<lambda>x. Num ((zero_filled x - column_mean (map zero_filled col))
                                / column_scale (map zero_filled col))) col)"
    using main by blast
  then have "''a'' \<in> set [''a'', ''zz''] \<and> map_of ex_df ''a'' = Some [Num 1, Num 3] \<longrightarrow>
          map_of ?out ''a'' =
            Some (map (\<lambda>x. Num ((zero_filled x - column_mean (map zero_filled [Num 1, Num 3]))
                                / column_scale (map zero_filled [Num 1, Num 3]))) [Num 1, Num 3])"
    by blast
  moreover have "map_of ex_df ''a'' = Some [Num 1, Num 3]"
    by (simp add: ex_df_def)
  ultimately have scaled: "map_of ?out ''a'' =
            Some (map (\<lambda>x. Num ((zero_filled x - column_mean (map zero_filled [Num 1, Num 3]))
                                / column_scale (map zero_filled [Num 1, Num 3]))) [Num 1, Num 3])"
    by simp
  show ?thesis
    using trip keys other scaled by (intro conjI)
qed

text \<open>The claim as stated fails: no requested column is in the table, the fit returns the
  table unchanged, and the transform with the same name raises the lookup error; with the
  name registered by an earlier fit, the transform returns a table other than the one the
  fit returned.\<close>

theorem C7_no_column_counterexample:
  "fit_scaler Map.empty ex_df [''zz''] ''n'' = Inr (ex_df, Map.empty)
 \<and> transform_scaler Map.empty ex_df ''n'' = Inl (ScalerNotFound ''n'')
 \<and> fit_scaler ex_registry ex_df [''zz''] ''n'' = Inr (ex_df, ex_registry)
 \<and> transform_scaler ex_registry ex_df ''n'' =
     Inr [(''a'', [Num (- 1), Num 1]), (''b'', [Num 5, Missing]), (''c'', [Num 7, Num 7])]
 \<and> ex_df \<noteq> [(''a'', [Num (- 1), Num 1]), (''b'', [Num 5, Missing]), (''c'', [Num 7, Num 7])]"
  by (simp add: scaler_defs ex_df_def ex_registry_def)

text \<open>
  \<^bold>\<open>C8\<close> (registry lookup failure). The claim does not hold of the code. The name \<open>n\<close> is
  fitted on the column \<open>a\<close>; on a table that has rows and lacks that column, the claim
  promises a new table in which the stored columns that are present are transformed, which
  is the table as it was, and no exception. \<open>transform_scaler\<close> resolves the stored columns
  against the table as \<open>fit_scaler\<close> does, but without the return that \<open>fit_scaler\<close> has for
  an empty resolution, and gives the scaler an array without columns: it raises
  \<open>ValueError\<close>.
\<close>

theorem C8_missing_stored_column_raises:
  "fit_scaler Map.empty ex_df [''a''] ''n'' =
     Inr ([(''a'', [Num (- 1), Num 1]), (''b'', [Num 5, Missing]), (''c'', [Num 7, Num 7])],
          ex_registry)
 \<and> transform_scaler ex_registry [(''b'', [Num 5, Missing])] ''n'' =
     Inl (ValueError ''Found array with 0 feature(s)'')"
  by (simp add: scaler_defs zero_filled_def ex_df_def ex_registry_def)

text \<open>
  \<^bold>\<open>C10\<close> (fit with no requested column present), as amended. When none of the requested
  columns is in the table, \<open>fit_scaler\<close> returns the table and the registry as they were,
  so that a later \<open>transform_scaler\<close> with that name raises the lookup error if and only
  if no earlier fit had registered the name. When at least one requested column is in the table,
  the table has at least one row and the requested columns of the table hold only finite
  numbers and missing cells, the name is bound to a fitted scaler and to exactly the
  requested columns that are in the table. When at least one requested column is in the
  table and the table has no row, or a requested column of the table holds an infinite
  number or a value that is not a number, the fit raises \<open>ValueError\<close> and registers
  nothing.
\<close>

theorem C10_fit_scaler_registration:
  "(filter (\<lambda>c. c \<in> set (df_columns df)) cols = [] \<longrightarrow>
      fit_scaler reg df cols n = Inr (df, reg)
      \<and> (transform_scaler reg later_df n = Inl (ScalerNotFound n)) = (reg n = None))
 \<and> (filter (\<lambda>c. c \<in> set (df_columns df)) cols \<noteq> [] \<and> 0 < n_rows df
      \<and> accepted df (filter (\<lambda>c. c \<in> set (df_columns df)) cols) \<longrightarrow>
      (\<exists>out sc. fit_scaler reg df cols n =
                  Inr (out, reg(n \<mapsto> (sc, filter (\<lambda>c. c \<in> set (df_columns df)) cols)))
               \<and> length (means sc) = length (filter (\<lambda>c. c \<in> set (df_columns df)) cols)
               \<and> length (scales sc) = length (filter (\<lambda>c. c \<in> set (df_columns df)) cols)))
 \<and> (filter (\<lambda>c. c \<in> set (df_columns df)) cols \<noteq> []
      \<and> (n_rows df = 0 \<or> \<not> accepted df (filter (\<lambda>c. c \<in> set (df_columns df)) cols)) \<longrightarrow>
      (\<exists>msg. fit_scaler reg df cols n = Inl (ValueError msg)))"
proof (intro conjI impI)
  assume "filter (\<lambda>c. c \<in> set (df_columns df)) cols = []"
  then show "fit_scaler reg df cols n = Inr (df, reg)"
    by (simp add: fit_scaler_def)
next
  show "(transform_scaler reg later_df n = Inl (ScalerNotFound n)) = (reg n = None)"
    by (rule lookup_error_iff)
next
  let ?valid = "filter (\<lambda>c. c \<in> set (df_columns df)) cols"
  assume "?valid \<noteq> [] \<and> 0 < n_rows df \<and> accepted df ?valid"
  then have ne: "?valid \<noteq> []" and rows: "0 < n_rows df" and acc: "accepted df ?valid"
    by simp_all
  let ?g = "\<lambda>c. scale_column (map zero_filled (column_of df c),
                               column_mean (map zero_filled (column_of df c)),
                               column_scale (map zero_filled (column_of df c)))"
  let ?sc = "\<lparr>means = map (\<lambda>c. column_mean (map zero_filled (column_of df c))) ?valid,
              scales = map (\<lambda>c. column_scale (map zero_filled (column_of df c))) ?valid\<rparr>"
  have "fit_scaler reg df cols n =
          Inr (assign_columns df ?valid (map ?g ?valid), reg(n \<mapsto> (?sc, ?valid)))"
    using fit_scaler_run [OF ne, of reg n] acc rows by simp
  moreover have "length (means ?sc) = length ?valid" "length (scales ?sc) = length ?valid"
    by simp_all
  ultimately show "\<exists>out sc. fit_scaler reg df cols n = Inr (out, reg(n \<mapsto> (sc, ?valid)))
                     \<and> length (means sc) = length ?valid
                     \<and> length (scales sc) = length ?valid"
    by blast
next
  let ?valid = "filter (\<lambda>c. c \<in> set (df_columns df)) cols"
  assume "?valid \<noteq> [] \<and> (n_rows df = 0 \<or> \<not> accepted df ?valid)"
  then have ne: "?valid \<noteq> []" and bad: "n_rows df = 0 \<or> \<not> accepted df ?valid"
    by simp_all
  show "\<exists>msg. fit_scaler reg df cols n = Inl (ValueError msg)"
  proof (cases "accepted df ?valid")
    case True
    with bad have "n_rows df = 0"
      by simp
    with fit_scaler_run [OF ne, of reg n] True show ?thesis
      by simp
  next
    case False
    with ne show ?thesis
      by (rule fit_scaler_refused)
  qed
qed

theorem C10_fit_scaler_registration_witness:
  "fit_scaler Map.empty ex_df [''zz''] ''n'' = Inr (ex_df, Map.empty)
 \<and> transform_scaler Map.empty ex_df ''n'' = Inl (ScalerNotFound ''n'')
 \<and> (\<exists>out sc. fit_scaler Map.empty ex_df [''a'', ''zz''] ''n'' = Inr (out, [''n'' \<mapsto> (sc, [''a''])])
       \<and> length (means sc) = 1 \<and> length (scales sc) = 1)
 \<and> (\<exists>msg. fit_scaler Map.empty [(''d'', [Infinite, Num 1])] [''d''] ''n'' = Inl (ValueError msg))"
  using C10_fit_scaler_registration
          [where df = ex_df and cols = "[''zz'']" and reg = Map.empty and n = "''n''" and later_df = ex_df]
        C10_fit_scaler_registration
          [where df = ex_df and cols = "[''a'', ''zz'']" and reg = Map.empty and n = "''n''"
             and later_df = ex_df]
        C10_fit_scaler_registration
          [where df = "[(''d'', [Infinite, Num 1])]" and cols = "[''d'']"
             and reg = Map.empty and n = "''n''" and later_df = ex_df]
  by (simp add: ex_df_def df_columns_def n_rows_def accepted_def column_of_def
      finite_or_missing_def)

text \<open>The claim as stated fails: with the requested column present in a table without
  rows, and with a requested column that holds an infinite number, the fit raises and
  nothing is registered; and after a fit that finds no requested column, a name registered
  earlier is still transformed without a lookup error.\<close>

theorem C10_empty_table_counterexample:
  "fit_scaler Map.empty [(''a'', [])] [''a''] ''n'' =
     Inl (ValueError ''Found array with 0 sample(s)'')
 \<and> fit_scaler Map.empty [(''a'', [Num 1, Infinite])] [''a''] ''n'' =
     Inl (ValueError ''Input X contains infinity'')
 \<and> fit_scaler ex_registry ex_df [''zz''] ''n'' = Inr (ex_df, ex_registry)
 \<and> transform_scaler ex_registry ex_df ''n'' =
     Inr [(''a'', [Num (- 1), Num 1]), (''b'', [Num 5, Missing]), (''c'', [Num 7, Num 7])]"
  by (simp add: scaler_defs ex_df_def ex_registry_def)

end
